theory Spec2Isabelle
  imports Main "HOL-Library.Word"
begin

section \<open>The RTMP sink element of gstrtmpsink.c\<close>

text \<open>
  A shallow embedding of \<^verbatim>\<open>src/gstrtmpsink.c\<close>: the instance structure, the
  start/stop/event handlers and the render function. librtmp and the GStreamer
  core are outside the file; what they answer during one call of a handler is an
  argument of the model (the record \<open>transport\<close>), and what the handler asks of
  them is part of its result (the list of \<open>effect\<close>s, in program order).
  Reference counting of buffers and the freeing of strings are not modelled.
\<close>

subsection \<open>Data\<close>

text \<open>
  A buffer carries \<^verbatim>\<open>GST_BUFFER_TIMESTAMP\<close> (a \<^verbatim>\<open>GstClockTime\<close>, 64 bits
  unsigned) and its bytes (\<^verbatim>\<open>GST_BUFFER_DATA\<close>, \<^verbatim>\<open>GST_BUFFER_SIZE\<close>).
\<close>

record GstBuffer =
  timestamp :: "64 word"
  data :: "8 word list"

text \<open>The librtmp context, remembered by the URL it was set up with.\<close>

datatype RTMP = RTMP_for string

text \<open>
  Modelled from the spec: the structure \<^verbatim>\<open>GstRTMPSink\<close> is declared in
  \<^verbatim>\<open>gstrtmpsink.h\<close>, which is not among the sources. The record has the fields
  that the C file reads or writes, with the types of the spec's data model where
  the C file agrees with them: timestamps and the reconnection delay are unsigned
  64-bit values in the same unit (the \<^verbatim>\<open>reconnection-delay\<close> property is a
  \<^verbatim>\<open>uint64\<close>, compared with differences of buffer timestamps), and the flags are
  booleans. The C file uses \<^verbatim>\<open>connection_status\<close> and \<^verbatim>\<open>sent_status\<close> with
  the values \<^verbatim>\<open>0\<close>, \<^verbatim>\<open>1\<close>, \<^verbatim>\<open>-1\<close> and the return value of \<^verbatim>\<open>RTMP_Write\<close>,
  and compares \<^verbatim>\<open>disconnection_notified\<close> with \<^verbatim>\<open>1\<close> and with zero, so these
  are integers, as is the counter \<^verbatim>\<open>send_error_count\<close> (unbounded here: it would
  need 2^31 increments to leave a C \<^verbatim>\<open>int\<close>). A \<^verbatim>\<open>NULL\<close> pointer is \<open>None\<close>.
\<close>

record GstRTMPSink =
  uri :: "string option"
  backup_uri :: "string option"
  rtmp_uri :: "string option"
  flashver :: string
  rtmp :: "RTMP option"
  header :: "GstBuffer option"
  first :: bool
  is_backup :: bool
  have_write_error :: bool
  stream_metadata :: "GstBuffer option"
  video_metadata :: "GstBuffer option"
  audio_metadata :: "GstBuffer option"
  stream_meta_saved :: bool
  video_meta_saved :: bool
  audio_meta_saved :: bool
  try_now_connection :: bool
  connection_status :: int
  sent_status :: int
  send_error_count :: int
  disconnection_notified :: int
  begin_time_disc :: "64 word"
  end_time_disc :: "64 word"
  reconnection_delay :: "64 word"
  tcp_timeout :: nat

datatype GstFlowReturn = GST_FLOW_OK | GST_FLOW_ERROR

text \<open>The element messages built with \<^verbatim>\<open>gst_structure_new\<close>, with their timestamp.\<close>

datatype message = Disconnected "64 word" | Reconnected "64 word" | Bandwidth "64 word"

text \<open>
  What a handler does to the outside, in program order: messages posted on the bus,
  \<^verbatim>\<open>GST_ELEMENT_ERROR\<close> and \<^verbatim>\<open>GST_ELEMENT_WARNING\<close>, and the calls into librtmp with
  the answer received.
\<close>

datatype effect =
    Post message
  | Element_error
  | Element_warning
  | Call_Close
  | Call_Free
  | Call_Alloc bool
  | Call_SetupURL string bool
  | Call_IsConnected bool
  | Call_SetOpt string bool
  | Call_Connect bool
  | Call_ConnectStream bool
  | Call_Write "8 word list" int

text \<open>
  The answers of librtmp during one call of a handler, one field for each call site:
  \<^verbatim>\<open>RTMP_Alloc\<close> and \<^verbatim>\<open>RTMP_SetupURL\<close> in \<^verbatim>\<open>gst_rtmp_sink_start\<close>, the two
  \<^verbatim>\<open>RTMP_SetOpt\<close> in \<^verbatim>\<open>gst_rtmp_sink_option\<close>, and in the render function
  \<^verbatim>\<open>RTMP_IsConnected\<close>, \<^verbatim>\<open>RTMP_Connect\<close>, \<^verbatim>\<open>RTMP_ConnectStream\<close>, the three
  \<^verbatim>\<open>RTMP_Write\<close> of the saved metadata and the \<^verbatim>\<open>RTMP_Write\<close> of the buffer.
\<close>

record transport =
  RTMP_Alloc_ok :: bool
  RTMP_SetupURL_ok :: bool
  RTMP_SetOpt_flashver_ok :: bool
  RTMP_SetOpt_timeout_ok :: bool
  RTMP_IsConnected :: bool
  RTMP_Connect_ok :: bool
  RTMP_ConnectStream_ok :: bool
  RTMP_Write_stream :: int
  RTMP_Write_video :: int
  RTMP_Write_audio :: int
  RTMP_Write_buf :: int

text \<open>
  Where the C code would dereference \<^verbatim>\<open>NULL\<close> or read the first byte of an empty
  buffer its behaviour is undefined; the model returns a fault instead of a result.
\<close>

datatype fault = Null_dereference | Read_out_of_bounds

record outcome =
  flow :: GstFlowReturn
  sink :: GstRTMPSink
  effects :: "effect list"

subsection \<open>Initialisation, start, stop, flush\<close>

text \<open>
  \<^verbatim>\<open>gst_rtmp_sink_init\<close> on the zero-filled instance GObject allocates.
\<close>

definition gst_rtmp_sink_init :: GstRTMPSink where
  "gst_rtmp_sink_init =
     \<lparr> uri = None, backup_uri = None, rtmp_uri = None,
       flashver = ''gstreamer0.10-rtmp-ubicast'',
       rtmp = None, header = None, first = False, is_backup = False,
       have_write_error = False,
       stream_metadata = None, video_metadata = None, audio_metadata = None,
       stream_meta_saved = False, video_meta_saved = False, audio_meta_saved = False,
       try_now_connection = True,
       connection_status = 0, sent_status = 0, send_error_count = 0,
       disconnection_notified = 1,
       begin_time_disc = 0, end_time_disc = 0,
       reconnection_delay = 10000000000, tcp_timeout = 3 \<rparr>"

text \<open>
  \<^verbatim>\<open>gst_rtmp_sink_start\<close>: the returned boolean, the new state and the effects.
\<close>

definition gst_rtmp_sink_start ::
  "transport \<Rightarrow> GstRTMPSink \<Rightarrow> bool \<times> GstRTMPSink \<times> effect list" where
  "gst_rtmp_sink_start t s =
     (case (if \<not> is_backup s then uri s else backup_uri s) of
        None \<Rightarrow> (False, s, [if \<not> is_backup s then Element_error else Element_warning])
      | Some u \<Rightarrow>
          if \<not> RTMP_Alloc_ok t then
            (False, s\<lparr>rtmp := None, rtmp_uri := None\<rparr>, [Call_Alloc False])
          else if \<not> RTMP_SetupURL_ok t then
            (False, s\<lparr>rtmp := None, rtmp_uri := None\<rparr>,
             [Call_Alloc True, Call_SetupURL u False, Element_error, Call_Free])
          else
            (True,
             s\<lparr>rtmp_uri := Some u, rtmp := Some (RTMP_for u),
               first := True, have_write_error := False\<rparr>,
             [Call_Alloc True, Call_SetupURL u True]))"

text \<open>\<^verbatim>\<open>gst_rtmp_sink_stop\<close> (it always returns \<^verbatim>\<open>TRUE\<close>).\<close>

definition gst_rtmp_sink_stop :: "GstRTMPSink \<Rightarrow> GstRTMPSink \<times> effect list" where
  "gst_rtmp_sink_stop s =
     (s\<lparr>header := None, rtmp := None, rtmp_uri := None\<rparr>,
      (if rtmp s \<noteq> None then [Call_Close, Call_Free] else []))"

text \<open>\<^verbatim>\<open>gst_rtmp_sink_event\<close> (it always returns \<^verbatim>\<open>TRUE\<close>).\<close>

datatype GstEventType = GST_EVENT_FLUSH_STOP | GST_EVENT_OTHER

definition gst_rtmp_sink_event :: "GstRTMPSink \<Rightarrow> GstEventType \<Rightarrow> GstRTMPSink" where
  "gst_rtmp_sink_event s e =
     (case e of GST_EVENT_FLUSH_STOP \<Rightarrow> s\<lparr>have_write_error := False\<rparr>
              | GST_EVENT_OTHER \<Rightarrow> s)"

text \<open>
  \<^verbatim>\<open>gst_rtmp_sink_option\<close>: the two \<^verbatim>\<open>RTMP_SetOpt\<close> calls; on a refusal the
  context and the URI copy are released.
\<close>

definition gst_rtmp_sink_option ::
  "transport \<Rightarrow> GstRTMPSink \<Rightarrow> bool \<times> GstRTMPSink \<times> effect list" where
  "gst_rtmp_sink_option t s =
     (if \<not> RTMP_SetOpt_flashver_ok t then
        (False, s\<lparr>rtmp := None, rtmp_uri := None\<rparr>,
         [Call_SetOpt ''flashver'' False, Element_error] @
         (if rtmp s \<noteq> None then [Call_Free] else []))
      else if \<not> RTMP_SetOpt_timeout_ok t then
        (False, s\<lparr>rtmp := None, rtmp_uri := None\<rparr>,
         [Call_SetOpt ''flashver'' True, Call_SetOpt ''timeout'' False, Element_error] @
         (if rtmp s \<noteq> None then [Call_Free] else []))
      else
        (True, s, [Call_SetOpt ''flashver'' True, Call_SetOpt ''timeout'' True]))"

subsection \<open>The render function\<close>

text \<open>
  Lines 359 to 374: while \<^verbatim>\<open>connection_status\<close> is not zero, the first buffer
  whose first byte is 18, 9 or 8 is copied into the stream, video or audio slot.
  The conditions are evaluated left to right, so the first byte is read only when
  some slot is still free.
\<close>

definition save_metadata :: "GstRTMPSink \<Rightarrow> GstBuffer \<Rightarrow> fault + GstRTMPSink" where
  "save_metadata s buf =
     (if connection_status s \<noteq> 0 then
        (case data buf of
           [] \<Rightarrow>
             if stream_meta_saved s \<and> video_meta_saved s \<and> audio_meta_saved s
             then Inr s else Inl Read_out_of_bounds
         | b # bs \<Rightarrow>
             Inr (if \<not> stream_meta_saved s \<and> b = 18 then
                    s\<lparr>stream_metadata := Some buf, stream_meta_saved := True\<rparr>
                  else if \<not> video_meta_saved s \<and> b = 9 then
                    s\<lparr>video_metadata := Some buf, video_meta_saved := True\<rparr>
                  else if \<not> audio_meta_saved s \<and> b = 8 then
                    s\<lparr>audio_metadata := Some buf, audio_meta_saved := True\<rparr>
                  else s))
      else Inr s)"

text \<open>Lines 376 and 377.\<close>

definition mark_end :: "GstRTMPSink \<Rightarrow> GstBuffer \<Rightarrow> GstRTMPSink" where
  "mark_end s buf =
     (if sent_status s = - 1 \<or> connection_status s = - 1
      then s\<lparr>end_time_disc := timestamp buf\<rparr> else s)"

text \<open>Line 378: the test that lets a connection attempt happen.\<close>

definition eligible :: "GstRTMPSink \<Rightarrow> bool" where
  "eligible s \<longleftrightarrow>
     end_time_disc s - begin_time_disc s > reconnection_delay s \<or> try_now_connection s"

text \<open>
  Lines 380 to 399: after an error the context is rebuilt, on the other URI when a
  backup URI is set. The result of \<^verbatim>\<open>gst_rtmp_sink_start\<close> is not looked at.
\<close>

definition reinit :: "transport \<Rightarrow> GstRTMPSink \<Rightarrow> GstRTMPSink \<times> effect list" where
  "reinit t s =
     (if connection_status s = - 1 \<or> sent_status s = - 1 then
        (let (s1, e1) = gst_rtmp_sink_stop s;
             s2 = (if backup_uri s1 \<noteq> None then s1\<lparr>is_backup := \<not> is_backup s1\<rparr> else s1);
             (ok, s3, e3) = gst_rtmp_sink_start t s2
         in (s3\<lparr>begin_time_disc := end_time_disc s3\<rparr>, e1 @ e3))
      else (s, []))"

text \<open>The label \<^verbatim>\<open>init_failed\<close>, lines 511 to 523.\<close>

definition init_failed :: "GstRTMPSink \<Rightarrow> effect list \<Rightarrow> outcome" where
  "init_failed s es =
     \<lparr> flow = GST_FLOW_ERROR,
       sink = (if rtmp_uri s \<noteq> None
               then s\<lparr>rtmp := None, rtmp_uri := None, have_write_error := True\<rparr>
               else s\<lparr>rtmp := None\<rparr>),
       effects = es @ (if rtmp s \<noteq> None then [Call_Free] else []) \<rparr>"

text \<open>
  Lines 410 to 433: \<^verbatim>\<open>RTMP_Connect\<close> or \<^verbatim>\<open>RTMP_ConnectStream\<close> has failed.
\<close>

definition connect_failed :: "GstRTMPSink \<Rightarrow> GstBuffer \<Rightarrow> effect list \<Rightarrow> outcome" where
  "connect_failed s buf es =
     (let s1 = s\<lparr>rtmp := None, try_now_connection := False, rtmp_uri := None,
                 connection_status := - 1, send_error_count := 0\<rparr>;
          es1 = es @ [Call_Free]
      in if reconnection_delay s1 \<le> 0 then init_failed s1 es1
         else
           (let s2 = s1\<lparr>begin_time_disc := timestamp buf\<rparr>
            in if disconnection_notified s2 = 1 then
                 \<lparr> flow = GST_FLOW_OK,
                   sink = s2\<lparr>connection_status := - 1, sent_status := 0,
                             disconnection_notified := 0\<rparr>,
                   effects = es1 @ [Post (Disconnected (begin_time_disc s2))] \<rparr>
               else
                 \<lparr> flow = GST_FLOW_OK, sink = s2, effects = es1 \<rparr>))"

text \<open>
  One of the three writes of lines 459 to 467: a saved slot is written and the
  return value of \<^verbatim>\<open>RTMP_Write\<close> is stored in \<^verbatim>\<open>connection_status\<close>.
\<close>

definition replay_slot ::
  "bool \<Rightarrow> GstBuffer option \<Rightarrow> int \<Rightarrow> GstRTMPSink \<times> effect list
     \<Rightarrow> fault + GstRTMPSink \<times> effect list" where
  "replay_slot saved meta ret p =
     (if saved then
        (case meta of
           None \<Rightarrow> Inl Null_dereference
         | Some m \<Rightarrow>
             Inr ((fst p)\<lparr>connection_status := ret\<rparr>, snd p @ [Call_Write (data m) ret]))
      else Inr p)"

definition replay ::
  "transport \<Rightarrow> GstRTMPSink \<times> effect list \<Rightarrow> fault + GstRTMPSink \<times> effect list" where
  "replay t p =
     (case replay_slot (stream_meta_saved (fst p)) (stream_metadata (fst p))
             (RTMP_Write_stream t) p of
        Inl f \<Rightarrow> Inl f
      | Inr p1 \<Rightarrow>
          (case replay_slot (video_meta_saved (fst p1)) (video_metadata (fst p1))
                  (RTMP_Write_video t) p1 of
             Inl f \<Rightarrow> Inl f
           | Inr p2 \<Rightarrow>
               replay_slot (audio_meta_saved (fst p2)) (audio_metadata (fst p2))
                 (RTMP_Write_audio t) p2))"

text \<open>
  Lines 438 to 479, reached when the context is connected: the buffer becomes the
  cached header, one of the two messages may be posted, the saved metadata is
  written, and the function returns. The buffer joined at lines 473 and 474 is a
  local value that nothing reads before the return of line 479, so it does not
  appear in the outcome.
\<close>

definition connected :: "transport \<Rightarrow> GstRTMPSink \<Rightarrow> GstBuffer \<Rightarrow> effect list \<Rightarrow> fault + outcome" where
  "connected t s buf es =
     (let s1 = s\<lparr>header := Some buf\<rparr>;
          (s2, es2) =
            (if disconnection_notified s1 = 0 then
               (s1\<lparr>disconnection_notified := 1\<rparr>,
                es @ [Post (Reconnected (begin_time_disc s1))])
             else if sent_status s1 = - 1 \<and> send_error_count s1 \<ge> 2 then
               (s1\<lparr>send_error_count := 0\<rparr>, es @ [Post (Bandwidth (timestamp buf))])
             else (s1, es))
      in case replay t (s2\<lparr>connection_status := 1\<rparr>, es2) of
           Inl f \<Rightarrow> Inl f
         | Inr (s3, es3) \<Rightarrow>
             Inr \<lparr> flow = GST_FLOW_OK, sink = s3\<lparr>first := False\<rparr>, effects = es3 \<rparr>)"

text \<open>Lines 375 to 480: the branch taken while \<^verbatim>\<open>first\<close> is set.\<close>

definition first_chunk :: "transport \<Rightarrow> GstRTMPSink \<Rightarrow> GstBuffer \<Rightarrow> fault + outcome" where
  "first_chunk t s buf =
     (let s1 = mark_end s buf
      in if eligible s1 then
           (let (s2, es2) = reinit t s1
            in case rtmp s2 of
                 None \<Rightarrow> Inl Null_dereference
               | Some r \<Rightarrow>
                   if \<not> RTMP_IsConnected t then
                     (let (ok, s3, es3) = gst_rtmp_sink_option t s2;
                          es4 = es2 @ [Call_IsConnected False] @ es3
                      in if \<not> ok then Inr (init_failed s3 (es4 @ [Element_error]))
                         else if \<not> RTMP_Connect_ok t then
                           Inr (connect_failed s3 buf (es4 @ [Call_Connect False]))
                         else if \<not> RTMP_ConnectStream_ok t then
                           Inr (connect_failed s3 buf
                                  (es4 @ [Call_Connect True, Call_ConnectStream False]))
                         else
                           connected t s3 buf
                             (es4 @ [Call_Connect True, Call_ConnectStream True]))
                   else connected t s2 buf (es2 @ [Call_IsConnected True]))
         else Inr \<lparr> flow = GST_FLOW_OK, sink = s1, effects = [] \<rparr>)"

text \<open>
  Lines 482 to 509 and the label \<^verbatim>\<open>write_failed\<close>: the branch taken while
  \<^verbatim>\<open>first\<close> is not set.
\<close>

definition send_error :: "GstRTMPSink \<Rightarrow> GstBuffer \<Rightarrow> GstRTMPSink" where
  "send_error s buf =
     (if sent_status s = - 1 then
        s\<lparr>send_error_count := send_error_count s + 1, first := True,
          begin_time_disc := timestamp buf, try_now_connection := True\<rparr>
      else s)"

definition steady :: "transport \<Rightarrow> GstRTMPSink \<Rightarrow> GstBuffer \<Rightarrow> fault + outcome" where
  "steady t s buf =
     (if have_write_error s then
        Inr \<lparr> flow = GST_FLOW_ERROR, sink = s\<lparr>have_write_error := True\<rparr>,
              effects = [Element_error] \<rparr>
      else if connection_status s > 0 then
        (case rtmp s of
           None \<Rightarrow> Inl Null_dereference
         | Some r \<Rightarrow>
             (let s1 = s\<lparr>sent_status := RTMP_Write_buf t\<rparr>;
                  w = Call_Write (data buf) (RTMP_Write_buf t)
              in if sent_status s1 = 0 then
                   Inr \<lparr> flow = GST_FLOW_ERROR, sink = s1, effects = [w, Element_error] \<rparr>
                 else
                   Inr \<lparr> flow = GST_FLOW_OK, sink = send_error s1 buf, effects = [w] \<rparr>))
      else Inr \<lparr> flow = GST_FLOW_OK, sink = send_error s buf, effects = [] \<rparr>)"

text \<open>\<^verbatim>\<open>gst_rtmp_sink_render\<close>.\<close>

definition gst_rtmp_sink_render ::
  "transport \<Rightarrow> GstRTMPSink \<Rightarrow> GstBuffer \<Rightarrow> fault + outcome" where
  "gst_rtmp_sink_render t s buf =
     (case save_metadata s buf of
        Inl f \<Rightarrow> Inl f
      | Inr s1 \<Rightarrow> if first s1 then first_chunk t s1 buf else steady t s1 buf)"

subsection \<open>Observing a call, and sequences of calls\<close>

text \<open>
  Three readings of an effect list: the messages posted, the bytes handed to
  \<^verbatim>\<open>RTMP_Write\<close> with the value it returned, and whether \<^verbatim>\<open>RTMP_Connect\<close> or
  \<^verbatim>\<open>RTMP_ConnectStream\<close> was called and refused.
\<close>

fun posts :: "effect list \<Rightarrow> message list" where
  "posts [] = []"
| "posts (Post m # es) = m # posts es"
| "posts (e # es) = posts es"

fun writes :: "effect list \<Rightarrow> (8 word list \<times> int) list" where
  "writes [] = []"
| "writes (Call_Write d r # es) = (d, r) # writes es"
| "writes (e # es) = writes es"

fun refused :: "effect list \<Rightarrow> bool" where
  "refused [] = False"
| "refused (Call_Connect ok # es) = (\<not> ok \<or> refused es)"
| "refused (Call_ConnectStream ok # es) = (\<not> ok \<or> refused es)"
| "refused (e # es) = refused es"

fun is_disconnected :: "message \<Rightarrow> bool" where
  "is_disconnected (Disconnected ts) = True"
| "is_disconnected m = False"

fun is_reconnected :: "message \<Rightarrow> bool" where
  "is_reconnected (Reconnected ts) = True"
| "is_reconnected m = False"

fun is_bandwidth :: "message \<Rightarrow> bool" where
  "is_bandwidth (Bandwidth ts) = True"
| "is_bandwidth m = False"

text \<open>
  The base sink calls the render function once for each buffer, in order. A
  sequence of calls, each with its own answers from librtmp, gives the list of
  outcomes, or the first fault.
\<close>

fun render_all ::
  "GstRTMPSink \<Rightarrow> (transport \<times> GstBuffer) list \<Rightarrow> fault + outcome list" where
  "render_all s [] = Inr []"
| "render_all s ((t, buf) # xs) =
     (case gst_rtmp_sink_render t s buf of
        Inl f \<Rightarrow> Inl f
      | Inr out \<Rightarrow>
          (case render_all (sink out) xs of
             Inl f \<Rightarrow> Inl f
           | Inr outs \<Rightarrow> Inr (out # outs)))"

text \<open>The fields that stop, start, the options and the rebuilding leave alone.\<close>

definition kept :: "GstRTMPSink \<Rightarrow> GstRTMPSink \<Rightarrow> bool" where
  "kept s s' \<longleftrightarrow>
     stream_metadata s' = stream_metadata s \<and> video_metadata s' = video_metadata s \<and>
     audio_metadata s' = audio_metadata s \<and> stream_meta_saved s' = stream_meta_saved s \<and>
     video_meta_saved s' = video_meta_saved s \<and> audio_meta_saved s' = audio_meta_saved s \<and>
     try_now_connection s' = try_now_connection s \<and>
     connection_status s' = connection_status s \<and> sent_status s' = sent_status s \<and>
     send_error_count s' = send_error_count s \<and>
     disconnection_notified s' = disconnection_notified s \<and>
     reconnection_delay s' = reconnection_delay s"

text \<open>The fields that the saving of metadata leaves alone.\<close>

definition same_control :: "GstRTMPSink \<Rightarrow> GstRTMPSink \<Rightarrow> bool" where
  "same_control s s' \<longleftrightarrow>
     first s' = first s \<and> have_write_error s' = have_write_error s \<and>
     header s' = header s \<and> rtmp s' = rtmp s \<and>
     try_now_connection s' = try_now_connection s \<and>
     connection_status s' = connection_status s \<and> sent_status s' = sent_status s \<and>
     send_error_count s' = send_error_count s \<and>
     disconnection_notified s' = disconnection_notified s \<and>
     reconnection_delay s' = reconnection_delay s \<and>
     begin_time_disc s' = begin_time_disc s \<and> end_time_disc s' = end_time_disc s"

text \<open>The three metadata slots of two states hold the same.\<close>

definition same_slots :: "GstRTMPSink \<Rightarrow> GstRTMPSink \<Rightarrow> bool" where
  "same_slots s s' \<longleftrightarrow>
     stream_metadata s' = stream_metadata s \<and> video_metadata s' = video_metadata s \<and>
     audio_metadata s' = audio_metadata s \<and> stream_meta_saved s' = stream_meta_saved s \<and>
     video_meta_saved s' = video_meta_saved s \<and> audio_meta_saved s' = audio_meta_saved s"

text \<open>
  What the replay of the saved metadata is expected to write: the stream slot, then
  the video slot, then the audio slot, each only when saved; and the value left in
  \<^verbatim>\<open>connection_status\<close>, the return value of the last write made.
\<close>

definition slot_writes :: "bool \<Rightarrow> GstBuffer option \<Rightarrow> int \<Rightarrow> (8 word list \<times> int) list" where
  "slot_writes saved meta ret =
     (if saved then (case meta of None \<Rightarrow> [] | Some m \<Rightarrow> [(data m, ret)]) else [])"

definition replay_writes :: "transport \<Rightarrow> GstRTMPSink \<Rightarrow> (8 word list \<times> int) list" where
  "replay_writes t s =
     slot_writes (stream_meta_saved s) (stream_metadata s) (RTMP_Write_stream t) @
     slot_writes (video_meta_saved s) (video_metadata s) (RTMP_Write_video t) @
     slot_writes (audio_meta_saved s) (audio_metadata s) (RTMP_Write_audio t)"

definition replay_status :: "transport \<Rightarrow> GstRTMPSink \<Rightarrow> int" where
  "replay_status t s =
     (if audio_meta_saved s then RTMP_Write_audio t
      else if video_meta_saved s then RTMP_Write_video t
      else if stream_meta_saved s then RTMP_Write_stream t
      else 1)"

subsection \<open>Concrete inputs\<close>

text \<open>
  A librtmp that accepts everything and writes three bytes each time; a buffer of
  three bytes with a given timestamp and type tag; the element after its location
  was set and it was started; and the same element in the middle of a stream, with
  the three metadata slots filled.
\<close>

definition answers_ok :: transport where
  "answers_ok =
     \<lparr> RTMP_Alloc_ok = True, RTMP_SetupURL_ok = True,
       RTMP_SetOpt_flashver_ok = True, RTMP_SetOpt_timeout_ok = True,
       RTMP_IsConnected = False, RTMP_Connect_ok = True, RTMP_ConnectStream_ok = True,
       RTMP_Write_stream = 3, RTMP_Write_video = 3, RTMP_Write_audio = 3,
       RTMP_Write_buf = 3 \<rparr>"

definition chunk :: "64 word \<Rightarrow> 8 word \<Rightarrow> GstBuffer" where
  "chunk ts tag = \<lparr> timestamp = ts, data = [tag, 0, 0] \<rparr>"

definition started_sink :: GstRTMPSink where
  "started_sink =
     gst_rtmp_sink_init
       \<lparr> uri := Some ''rtmp://host/live'', rtmp_uri := Some ''rtmp://host/live'',
         rtmp := Some (RTMP_for ''rtmp://host/live''), first := True \<rparr>"

definition streaming_sink :: GstRTMPSink where
  "streaming_sink =
     started_sink
       \<lparr> first := False, connection_status := 1, header := Some (chunk 0 18),
         stream_metadata := Some (chunk 0 18), stream_meta_saved := True,
         video_metadata := Some (chunk 1 9), video_meta_saved := True,
         audio_metadata := Some (chunk 2 8), audio_meta_saved := True \<rparr>"

text \<open>
  The started element after a refused connection at time 5, for which the
  disconnected message was posted; and the streaming element after its second
  failed write, at time 7.
\<close>

definition lost_sink :: GstRTMPSink where
  "lost_sink =
     started_sink
       \<lparr> rtmp := None, rtmp_uri := None, try_now_connection := False,
         connection_status := - 1, disconnection_notified := 0, begin_time_disc := 5 \<rparr>"

definition choked_sink :: GstRTMPSink where
  "choked_sink =
     streaming_sink
       \<lparr> first := True, try_now_connection := True, sent_status := - 1,
         send_error_count := 2, begin_time_disc := 7 \<rparr>"

section \<open>Properties\<close>

subsection \<open>The parts of the render function\<close>

lemma posts_append [simp]: "posts (a @ b) = posts a @ posts b"
  by (induction a rule: posts.induct) simp_all

lemma writes_append [simp]: "writes (a @ b) = writes a @ writes b"
  by (induction a rule: writes.induct) simp_all

lemma refused_append [simp]: "refused (a @ b) = (refused a \<or> refused b)"
  by (induction a rule: refused.induct) simp_all

lemma stop_obs:
  "gst_rtmp_sink_stop s = (s', es) \<Longrightarrow>
     posts es = [] \<and> writes es = [] \<and> \<not> refused es \<and> kept s s' \<and>
     header s' = None \<and> rtmp s' = None"
  by (auto simp: gst_rtmp_sink_stop_def kept_def split: if_splits)

lemma start_obs:
  "gst_rtmp_sink_start t s = (ok, s', es) \<Longrightarrow>
     posts es = [] \<and> writes es = [] \<and> \<not> refused es \<and> kept s s' \<and>
     header s' = header s \<and> (rtmp s = None \<and> rtmp s' \<noteq> None \<longrightarrow> first s')"
  by (auto simp: gst_rtmp_sink_start_def kept_def split: option.splits if_splits)

lemma option_obs:
  "gst_rtmp_sink_option t s = (ok, s', es) \<Longrightarrow>
     posts es = [] \<and> writes es = [] \<and> \<not> refused es \<and> kept s s' \<and>
     header s' = header s \<and> first s' = first s \<and> (ok \<longrightarrow> s' = s) \<and>
     (\<not> ok \<longrightarrow> rtmp_uri s' = None \<and> rtmp s' = None)"
  by (auto simp: gst_rtmp_sink_option_def kept_def split: option.splits if_splits)

lemma reinit_obs:
  "reinit t s = (s', es) \<Longrightarrow>
     posts es = [] \<and> writes es = [] \<and> \<not> refused es \<and> kept s s' \<and>
     (first s \<and> rtmp s' \<noteq> None \<longrightarrow> first s')"
  by (auto simp: reinit_def kept_def Let_def split: prod.splits if_splits
      dest!: stop_obs start_obs)

lemma reinit_header:
  "reinit t s = (s', es) \<Longrightarrow>
     header s' = (if connection_status s = - 1 \<or> sent_status s = - 1 then None else header s)"
  by (auto simp: reinit_def Let_def split: prod.splits if_splits dest!: stop_obs start_obs)

lemma init_failed_obs:
  "posts (effects (init_failed s es)) = posts es \<and>
   writes (effects (init_failed s es)) = writes es \<and>
   refused (effects (init_failed s es)) = refused es \<and>
   flow (init_failed s es) = GST_FLOW_ERROR \<and>
   kept s (sink (init_failed s es)) \<and> first (sink (init_failed s es)) = first s"
  by (simp add: init_failed_def kept_def)

lemma connect_failed_obs:
  "posts (effects (connect_failed s buf es)) =
     posts es @ (if reconnection_delay s \<noteq> 0 \<and> disconnection_notified s = 1
                 then [Disconnected (timestamp buf)] else []) \<and>
   writes (effects (connect_failed s buf es)) = writes es \<and>
   refused (effects (connect_failed s buf es)) = refused es \<and>
   (flow (connect_failed s buf es) = GST_FLOW_ERROR \<longleftrightarrow> reconnection_delay s = 0) \<and>
   \<not> try_now_connection (sink (connect_failed s buf es)) \<and>
   first (sink (connect_failed s buf es)) = first s \<and>
   send_error_count (sink (connect_failed s buf es)) = 0 \<and>
   reconnection_delay (sink (connect_failed s buf es)) = reconnection_delay s \<and>
   disconnection_notified (sink (connect_failed s buf es)) =
     (if reconnection_delay s \<noteq> 0 \<and> disconnection_notified s = 1 then 0
      else disconnection_notified s)"
  by (simp add: connect_failed_def init_failed_def Let_def)

lemma kept_refl [simp]: "kept s s"
  by (simp add: kept_def)

lemma kept_trans: "kept a b \<Longrightarrow> kept b c \<Longrightarrow> kept a c"
  by (simp add: kept_def)

lemma kept_mark_end [simp]: "kept s (mark_end s buf)"
  by (simp add: kept_def mark_end_def)

lemma replay_slot_obs:
  "replay_slot saved meta ret (s, es) = Inr (s', es') \<Longrightarrow>
     s' = (if saved then s\<lparr>connection_status := ret\<rparr> else s) \<and>
     posts es' = posts es \<and> refused es' = refused es \<and>
     writes es' = writes es @ slot_writes saved meta ret"
  by (auto simp: replay_slot_def slot_writes_def split: if_splits option.splits)

lemma replay_obs:
  assumes "replay t (s, es) = Inr (s', es')" "connection_status s = 1"
  shows "s' = s\<lparr>connection_status := replay_status t s\<rparr> \<and>
         posts es' = posts es \<and> refused es' = refused es \<and>
         writes es' = writes es @ replay_writes t s"
proof -
  from assms(1) obtain s1 e1 s2 e2 where
    a: "replay_slot (stream_meta_saved s) (stream_metadata s) (RTMP_Write_stream t) (s, es)
          = Inr (s1, e1)" and
    b: "replay_slot (video_meta_saved s1) (video_metadata s1) (RTMP_Write_video t) (s1, e1)
          = Inr (s2, e2)" and
    c: "replay_slot (audio_meta_saved s2) (audio_metadata s2) (RTMP_Write_audio t) (s2, e2)
          = Inr (s', es')"
    by (auto simp: replay_def split: sum.splits)
  note A = replay_slot_obs [OF a] and B = replay_slot_obs [OF b] and C = replay_slot_obs [OF c]
  show ?thesis
    using A B C assms(2)
    by (cases "stream_meta_saved s"; cases "video_meta_saved s"; cases "audio_meta_saved s")
       (simp_all add: replay_writes_def replay_status_def)
qed

lemma connected_obs:
  assumes "connected t s buf es = Inr out"
  shows "flow out = GST_FLOW_OK \<and> \<not> first (sink out) \<and> header (sink out) = Some buf \<and>
         posts (effects out) = posts es @
           (if disconnection_notified s = 0 then [Reconnected (begin_time_disc s)]
            else if sent_status s = - 1 \<and> send_error_count s \<ge> 2
            then [Bandwidth (timestamp buf)] else []) \<and>
         writes (effects out) = writes es @ replay_writes t s \<and>
         refused (effects out) = refused es \<and>
         sink out = s\<lparr>header := Some buf,
             disconnection_notified := (if disconnection_notified s = 0 then 1
                                        else disconnection_notified s),
             send_error_count := (if disconnection_notified s \<noteq> 0 \<and> sent_status s = - 1 \<and>
                                     send_error_count s \<ge> 2 then 0 else send_error_count s),
             connection_status := replay_status t s, first := False\<rparr>"
proof (cases "disconnection_notified s = 0")
  case True
  with assms obtain s3 es3 where
    r: "replay t (s\<lparr>header := Some buf, disconnection_notified := 1, connection_status := 1\<rparr>,
          es @ [Post (Reconnected (begin_time_disc s))]) = Inr (s3, es3)"
    and o: "out = \<lparr> flow = GST_FLOW_OK, sink = s3\<lparr>first := False\<rparr>, effects = es3 \<rparr>"
    by (auto simp: connected_def Let_def split: sum.splits)
  from replay_obs [OF r] o True show ?thesis
    by (simp add: replay_writes_def replay_status_def)
next
  case False
  show ?thesis
  proof (cases "sent_status s = - 1 \<and> send_error_count s \<ge> 2")
    case True
    with False assms obtain s3 es3 where
      r: "replay t (s\<lparr>header := Some buf, send_error_count := 0, connection_status := 1\<rparr>,
            es @ [Post (Bandwidth (timestamp buf))]) = Inr (s3, es3)"
      and o: "out = \<lparr> flow = GST_FLOW_OK, sink = s3\<lparr>first := False\<rparr>, effects = es3 \<rparr>"
      by (auto simp: connected_def Let_def split: sum.splits)
    from replay_obs [OF r] o True False show ?thesis
      by (simp add: replay_writes_def replay_status_def)
  next
    case nb: False
    with False assms obtain s3 es3 where
      r: "replay t (s\<lparr>header := Some buf, connection_status := 1\<rparr>, es) = Inr (s3, es3)"
      and o: "out = \<lparr> flow = GST_FLOW_OK, sink = s3\<lparr>first := False\<rparr>, effects = es3 \<rparr>"
      by (auto simp: connected_def Let_def split: sum.splits)
    from replay_obs [OF r] o nb False show ?thesis
      by (auto simp add: replay_writes_def replay_status_def)
  qed
qed

lemma first_chunk_cases:
  assumes "first_chunk t s buf = Inr out"
  shows "(\<not> eligible (mark_end s buf) \<and>
            out = \<lparr> flow = GST_FLOW_OK, sink = mark_end s buf, effects = [] \<rparr>)
       \<or> (eligible (mark_end s buf) \<and>
            (\<exists>s2 es. kept s s2 \<and> (first s \<longrightarrow> first s2) \<and> posts es = [] \<and> writes es = [] \<and>
               ((\<not> refused es \<and> out = init_failed s2 es)
              \<or> (refused es \<and> out = connect_failed s2 buf es)
              \<or> (\<not> refused es \<and> connected t s2 buf es = Inr out))))"
proof (cases "eligible (mark_end s buf)")
  case False
  with assms show ?thesis by (simp add: first_chunk_def Let_def)
next
  case True
  obtain s2 es2 where r: "reinit t (mark_end s buf) = (s2, es2)" by (cases "reinit t (mark_end s buf)")
  obtain ok s3 es3 where p: "gst_rtmp_sink_option t s2 = (ok, s3, es3)"
    by (cases "gst_rtmp_sink_option t s2")
  note R = reinit_obs [OF r] and P = option_obs [OF p]
  have k2: "kept s s2" using R kept_trans [OF kept_mark_end] by blast
  have k3: "kept s s3" using P k2 kept_trans by blast
  have f2: "first s \<longrightarrow> rtmp s2 \<noteq> None \<longrightarrow> first s2"
    using R by (simp add: mark_end_def)
  from assms True r p have nn: "rtmp s2 \<noteq> None"
    by (auto simp: first_chunk_def Let_def split: option.splits)
  with f2 have f2': "first s \<longrightarrow> first s2" by simp
  with P have f3: "first s \<longrightarrow> first s3" by simp
  show ?thesis
  proof (cases "RTMP_IsConnected t")
    case True
    with assms \<open>eligible (mark_end s buf)\<close> r nn
    have "connected t s2 buf (es2 @ [Call_IsConnected True]) = Inr out"
      by (auto simp: first_chunk_def Let_def split: option.splits)
    with R k2 f2' \<open>eligible (mark_end s buf)\<close> show ?thesis
      apply (intro disjI2 conjI)
         apply assumption
        apply (rule exI [of _ s2], rule exI [of _ "es2 @ [Call_IsConnected True]"])
        apply simp
        done
  next
    case nc: False
    let ?es4 = "es2 @ [Call_IsConnected False] @ es3"
    have q4: "posts ?es4 = [] \<and> writes ?es4 = [] \<and> \<not> refused ?es4"
      using R P by simp
    consider (opt) "\<not> ok" | (c1) "ok" "\<not> RTMP_Connect_ok t"
      | (c2) "ok" "RTMP_Connect_ok t" "\<not> RTMP_ConnectStream_ok t"
      | (good) "ok" "RTMP_Connect_ok t" "RTMP_ConnectStream_ok t" by blast
    then show ?thesis
    proof cases
      case opt
      with assms True r p nn nc have "out = init_failed s3 (?es4 @ [Element_error])"
        by (auto simp: first_chunk_def Let_def split: option.splits)
      with q4 k3 f3 True show ?thesis
        apply (intro disjI2 conjI)
         apply assumption
        apply (rule exI [of _ s3], rule exI [of _ "?es4 @ [Element_error]"])
        apply simp
        done
    next
      case c1
      with assms True r p nn nc have "out = connect_failed s3 buf (?es4 @ [Call_Connect False])"
        by (auto simp: first_chunk_def Let_def split: option.splits)
      with q4 k3 f3 True show ?thesis
        apply (intro disjI2 conjI)
         apply assumption
        apply (rule exI [of _ s3], rule exI [of _ "?es4 @ [Call_Connect False]"])
        apply simp
        done
    next
      case c2
      with assms True r p nn nc
      have "out = connect_failed s3 buf (?es4 @ [Call_Connect True, Call_ConnectStream False])"
        by (auto simp: first_chunk_def Let_def split: option.splits)
      with q4 k3 f3 True show ?thesis
        apply (intro disjI2 conjI)
         apply assumption
        apply (rule exI [of _ s3], rule exI [of _ "?es4 @ [Call_Connect True, Call_ConnectStream False]"])
        apply simp
        done
    next
      case good
      with assms True r p nn nc
      have "connected t s3 buf (?es4 @ [Call_Connect True, Call_ConnectStream True]) = Inr out"
        by (auto simp: first_chunk_def Let_def split: option.splits)
      with q4 k3 f3 True show ?thesis
        apply (intro disjI2 conjI)
         apply assumption
        apply (rule exI [of _ s3], rule exI [of _ "?es4 @ [Call_Connect True, Call_ConnectStream True]"])
        apply simp
        done
    qed
  qed
qed

subsection \<open>The render function, case by case\<close>

lemma save_metadata_control:
  "save_metadata s buf = Inr s1 \<Longrightarrow> same_control s s1"
  by (auto simp: save_metadata_def same_control_def split: if_splits list.splits)

lemma save_metadata_slots:
  assumes "save_metadata s buf = Inr s1"
  shows "(stream_meta_saved s1 \<longleftrightarrow>
            stream_meta_saved s \<or> connection_status s \<noteq> 0 \<and> take 1 (data buf) = [18]) \<and>
         stream_metadata s1 =
           (if \<not> stream_meta_saved s \<and> connection_status s \<noteq> 0 \<and> take 1 (data buf) = [18]
            then Some buf else stream_metadata s) \<and>
         (video_meta_saved s1 \<longleftrightarrow>
            video_meta_saved s \<or> connection_status s \<noteq> 0 \<and> take 1 (data buf) = [9]) \<and>
         video_metadata s1 =
           (if \<not> video_meta_saved s \<and> connection_status s \<noteq> 0 \<and> take 1 (data buf) = [9]
            then Some buf else video_metadata s) \<and>
         (audio_meta_saved s1 \<longleftrightarrow>
            audio_meta_saved s \<or> connection_status s \<noteq> 0 \<and> take 1 (data buf) = [8]) \<and>
         audio_metadata s1 =
           (if \<not> audio_meta_saved s \<and> connection_status s \<noteq> 0 \<and> take 1 (data buf) = [8]
            then Some buf else audio_metadata s)"
proof (cases "connection_status s = 0")
  case True
  with assms show ?thesis by (simp add: save_metadata_def)
next
  case False
  show ?thesis
  proof (cases "data buf")
    case Nil
    with assms False show ?thesis by (simp add: save_metadata_def split: if_splits)
  next
    case (Cons b bs)
    with assms False show ?thesis
      by (cases "b = 18"; cases "b = 9"; cases "b = 8")
         (auto simp: save_metadata_def)
  qed
qed

lemma steady_obs:
  assumes "steady t s buf = Inr out"
  shows "posts (effects out) = [] \<and> \<not> refused (effects out) \<and>
         writes (effects out) =
           (if \<not> have_write_error s \<and> connection_status s > 0
            then [(data buf, RTMP_Write_buf t)] else []) \<and>
         same_slots s (sink out) \<and> header (sink out) = header s \<and>
         disconnection_notified (sink out) = disconnection_notified s \<and>
         reconnection_delay (sink out) = reconnection_delay s \<and>
         have_write_error (sink out) = have_write_error s \<and>
         (have_write_error s \<longrightarrow> flow out = GST_FLOW_ERROR \<and> \<not> first (sink out) = (\<not> first s)) \<and>
         sent_status (sink out) =
           (if \<not> have_write_error s \<and> connection_status s > 0
            then RTMP_Write_buf t else sent_status s) \<and>
         send_error_count (sink out) =
           (if flow out = GST_FLOW_OK \<and> sent_status (sink out) = - 1
            then send_error_count s + 1 else send_error_count s) \<and>
         (flow out = GST_FLOW_ERROR \<longleftrightarrow>
            have_write_error s \<or> connection_status s > 0 \<and> RTMP_Write_buf t = 0)"
  using assms
  by (auto simp: steady_def send_error_def same_slots_def Let_def
      split: if_splits option.splits)

lemma render_cases [consumes 1, case_names steady wait setup_failed connect_refused connected]:
  assumes "gst_rtmp_sink_render t s buf = Inr out"
  obtains
    (steady) s1 where "save_metadata s buf = Inr s1" "\<not> first s" "steady t s1 buf = Inr out"
  | (wait) s1 where "save_metadata s buf = Inr s1" "first s" "\<not> eligible (mark_end s1 buf)"
      "out = \<lparr> flow = GST_FLOW_OK, sink = mark_end s1 buf, effects = [] \<rparr>"
  | (setup_failed) s1 s2 es where "save_metadata s buf = Inr s1" "first s"
      "eligible (mark_end s1 buf)" "kept s1 s2" "first s2"
      "posts es = []" "writes es = []" "\<not> refused es" "out = init_failed s2 es"
  | (connect_refused) s1 s2 es where "save_metadata s buf = Inr s1" "first s"
      "eligible (mark_end s1 buf)" "kept s1 s2" "first s2"
      "posts es = []" "writes es = []" "refused es" "out = connect_failed s2 buf es"
  | (connected) s1 s2 es where "save_metadata s buf = Inr s1" "first s"
      "eligible (mark_end s1 buf)" "kept s1 s2" "first s2"
      "posts es = []" "writes es = []" "\<not> refused es" "connected t s2 buf es = Inr out"
proof -
  from assms obtain s1 where sm: "save_metadata s buf = Inr s1"
    by (auto simp: gst_rtmp_sink_render_def split: sum.splits)
  have f: "first s1 = first s"
    using save_metadata_control [OF sm] by (simp add: same_control_def)
  show thesis
  proof (cases "first s")
    case False
    with assms sm f have "steady t s1 buf = Inr out"
      by (simp add: gst_rtmp_sink_render_def)
    with sm False show thesis by (rule steady)
  next
    case True
    with assms sm f have fc: "first_chunk t s1 buf = Inr out"
      by (simp add: gst_rtmp_sink_render_def)
    from first_chunk_cases [OF fc] True f show thesis
      using sm wait setup_failed connect_refused connected by blast
  qed
qed

lemma mark_end_fields [simp]:
  "first (mark_end s buf) = first s"
  "try_now_connection (mark_end s buf) = try_now_connection s"
  "send_error_count (mark_end s buf) = send_error_count s"
  "disconnection_notified (mark_end s buf) = disconnection_notified s"
  "same_slots s (mark_end s buf)"
  by (simp_all add: mark_end_def same_slots_def)

lemma render_slots:
  assumes "gst_rtmp_sink_render t s buf = Inr out"
  shows "\<exists>s1. save_metadata s buf = Inr s1 \<and> same_slots s1 (sink out)"
  using assms
proof (cases rule: render_cases)
  case (steady s1)
  with steady_obs [OF steady(3)] show ?thesis by simp
next
  case (wait s1)
  then show ?thesis by simp
next
  case (setup_failed s1 s2 es)
  with init_failed_obs [of s2 es] show ?thesis by (simp add: kept_def same_slots_def)
next
  case (connect_refused s1 s2 es)
  have "same_slots s2 (sink (connect_failed s2 buf es))"
    by (simp add: connect_failed_def init_failed_def same_slots_def Let_def)
  with connect_refused show ?thesis by (simp add: kept_def same_slots_def)
next
  case (connected s1 s2 es)
  note C = connected_obs [OF connected(9)]
  have "same_slots s2 (sink out)"
    by (subst conjunct2 [OF conjunct2 [OF conjunct2 [OF conjunct2 [OF conjunct2 [OF conjunct2 [OF C]]]]]])
       (simp add: same_slots_def)
  with connected show ?thesis by (simp add: kept_def same_slots_def)
qed


lemma eligible_save:
  "save_metadata s buf = Inr s1 \<Longrightarrow> eligible (mark_end s1 buf) = eligible (mark_end s buf)"
  by (drule save_metadata_control) (simp add: same_control_def eligible_def mark_end_def)

lemma episode_step:
  assumes "gst_rtmp_sink_render t s buf = Inr out" "disconnection_notified s = 0" "first s"
  shows "filter is_disconnected (posts (effects out)) = [] \<and>
         disconnection_notified (sink out) = (if first (sink out) then 0 else 1)"
  using assms(1)
proof (cases rule: render_cases)
  case (steady s1)
  with assms(3) show ?thesis by simp
next
  case (wait s1)
  with save_metadata_control [OF wait(1)] assms(2) show ?thesis by (simp add: same_control_def)
next
  case (setup_failed s1 s2 es)
  with init_failed_obs [of s2 es] save_metadata_control [OF setup_failed(1)] assms(2)
  show ?thesis by (simp add: same_control_def kept_def)
next
  case (connect_refused s1 s2 es)
  have "disconnection_notified s2 = 0"
    using connect_refused(4) save_metadata_control [OF connect_refused(1)] assms(2)
    by (simp add: kept_def same_control_def)
  with connect_refused connect_failed_obs [of s2 buf es] show ?thesis by simp
next
  case (connected s1 s2 es)
  have d: "disconnection_notified s2 = 0"
    using connected(4) save_metadata_control [OF connected(1)] assms(2)
    by (simp add: kept_def same_control_def)
  note C = connected_obs [OF connected(9)]
  have "disconnection_notified (sink out) = 1"
    by (subst conjunct2 [OF conjunct2 [OF conjunct2 [OF conjunct2 [OF conjunct2 [OF conjunct2 [OF C]]]]]])
       (simp add: d)
  with connected d C show ?thesis by simp
qed

lemma episode_quiet:
  assumes "render_all s xs = Inr outs" "disconnection_notified s = 0"
    "\<forall>x \<in> set outs. first (sink x)" "first s"
  shows "(\<forall>x \<in> set outs. filter is_disconnected (posts (effects x)) = [] \<and>
            disconnection_notified (sink x) = 0)"
  using assms
proof (induction xs arbitrary: s outs)
  case Nil
  then show ?case by simp
next
  case (Cons x xs)
  obtain t buf where x: "x = (t, buf)" by (cases x)
  from Cons.prems(1) x obtain out rest where
    step: "gst_rtmp_sink_render t s buf = Inr out" and
    r: "render_all (sink out) xs = Inr rest" and
    e: "outs = out # rest"
    by (auto split: sum.splits)
  from Cons.prems(3) e have f: "first (sink out)" "\<forall>x \<in> set rest. first (sink x)" by simp_all
  from episode_step [OF step Cons.prems(2) Cons.prems(4)] f
  have st: "filter is_disconnected (posts (effects out)) = []" "disconnection_notified (sink out) = 0"
    by simp_all
  from Cons.IH [OF r st(2) f(2) f(1)] st e show ?case by simp
qed

lemma map_const_all: "\<forall>x \<in> set xs. f x = c \<Longrightarrow> map f xs = replicate (length xs) c"
  by (induction xs) auto

lemmas render_defs =
  gst_rtmp_sink_render_def save_metadata_def first_chunk_def steady_def send_error_def
  mark_end_def eligible_def reinit_def gst_rtmp_sink_stop_def gst_rtmp_sink_start_def
  gst_rtmp_sink_option_def connected_def replay_def replay_slot_def connect_failed_def
  init_failed_def gst_rtmp_sink_event_def

lemmas example_defs =
  answers_ok_def chunk_def started_sink_def streaming_sink_def gst_rtmp_sink_init_def
  lost_sink_def choked_sink_def

subsection \<open>A refused connection\<close>

text \<open>
  A refused connection attempt, from the inputs: when the element waits for its
  first buffer, the attempt is eligible, a context exists, it is not connected, the
  options are accepted and one of the two connection calls is refused, the render
  function returns, and the refusal is among its effects.
\<close>

lemma refused_attempt_returns:
  assumes "save_metadata s buf = Inr s1" and "first s" and "eligible (mark_end s1 buf)"
    and "rtmp (fst (reinit t (mark_end s1 buf))) \<noteq> None"
    and "\<not> RTMP_IsConnected t"
    and "RTMP_SetOpt_flashver_ok t" and "RTMP_SetOpt_timeout_ok t"
    and "\<not> (RTMP_Connect_ok t \<and> RTMP_ConnectStream_ok t)"
  shows "\<exists>out. gst_rtmp_sink_render t s buf = Inr out \<and> refused (effects out)"
proof -
  obtain s2 es2 where r: "reinit t (mark_end s1 buf) = (s2, es2)"
    by (cases "reinit t (mark_end s1 buf)")
  from assms(4) r obtain h where h: "rtmp s2 = Some h" by auto
  have f: "first s1"
    using save_metadata_control [OF assms(1)] assms(2) by (simp add: same_control_def)
  have opt: "gst_rtmp_sink_option t s2 =
      (True, s2, [Call_SetOpt ''flashver'' True, Call_SetOpt ''timeout'' True])"
    using assms(6,7) by (simp add: gst_rtmp_sink_option_def)
  show ?thesis
  proof (cases "RTMP_Connect_ok t")
    case False
    with assms(1,3,5) f r h opt show ?thesis
      by (simp add: gst_rtmp_sink_render_def first_chunk_def Let_def connect_failed_obs)
  next
    case True
    with assms(8) have "\<not> RTMP_ConnectStream_ok t" by simp
    with True assms(1,3,5) f r h opt show ?thesis
      by (simp add: gst_rtmp_sink_render_def first_chunk_def Let_def connect_failed_obs)
  qed
qed

text \<open>
  C1. Whenever a call of the render function makes a connection attempt that is
  refused (\<^verbatim>\<open>RTMP_Connect\<close> or \<^verbatim>\<open>RTMP_ConnectStream\<close> returns failure), the call
  returns \<^verbatim>\<open>GST_FLOW_ERROR\<close> if and only if \<^verbatim>\<open>reconnection_delay\<close> is 0; with a
  positive delay it returns \<^verbatim>\<open>GST_FLOW_OK\<close>. In both cases nothing is written, and
  the element still waits for its first buffer: the chunk is dropped.
\<close>

theorem connect_failure_flow:
  assumes "gst_rtmp_sink_render t s buf = Inr out" and "refused (effects out)"
  shows "(flow out = GST_FLOW_ERROR \<longleftrightarrow> reconnection_delay s = 0) \<and>
         (0 < reconnection_delay s \<longrightarrow> flow out = GST_FLOW_OK) \<and>
         writes (effects out) = [] \<and> first (sink out)"
  using assms
proof (cases rule: render_cases)
  case (steady s1)
  with assms(2) steady_obs [OF steady(3)] show ?thesis by simp
next
  case (wait s1)
  with assms(2) show ?thesis by simp
next
  case (setup_failed s1 s2 es)
  with assms(2) init_failed_obs [of s2 es] show ?thesis by simp
next
  case (connect_refused s1 s2 es)
  have d: "reconnection_delay s2 = reconnection_delay s"
    using connect_refused(4) save_metadata_control [OF connect_refused(1)]
    by (simp add: kept_def same_control_def)
  have "flow (connect_failed s2 buf es) \<noteq> GST_FLOW_ERROR \<longrightarrow>
        flow (connect_failed s2 buf es) = GST_FLOW_OK"
    by (cases "flow (connect_failed s2 buf es)") simp_all
  with connect_refused d connect_failed_obs [of s2 buf es] show ?thesis
    by (auto simp: word_gt_0)
next
  case (connected s1 s2 es)
  with assms(2) connected_obs [OF connected(9)] show ?thesis by simp
qed

text \<open>
  The started element, with a librtmp that refuses \<^verbatim>\<open>RTMP_Connect\<close>: the call
  returns \<^verbatim>\<open>GST_FLOW_OK\<close> and writes nothing. With a delay of 0 and a librtmp
  that refuses \<^verbatim>\<open>RTMP_ConnectStream\<close>, the call returns \<^verbatim>\<open>GST_FLOW_ERROR\<close>.
\<close>

theorem connect_failure_flow_witness:
  "refused (effects (projr (gst_rtmp_sink_render (answers_ok\<lparr>RTMP_Connect_ok := False\<rparr>)
       started_sink (chunk 5 9)))) \<and>
   0 < reconnection_delay started_sink \<and>
   flow (projr (gst_rtmp_sink_render (answers_ok\<lparr>RTMP_Connect_ok := False\<rparr>)
       started_sink (chunk 5 9))) = GST_FLOW_OK \<and>
   writes (effects (projr (gst_rtmp_sink_render (answers_ok\<lparr>RTMP_Connect_ok := False\<rparr>)
       started_sink (chunk 5 9)))) = [] \<and>
   refused (effects (projr (gst_rtmp_sink_render (answers_ok\<lparr>RTMP_ConnectStream_ok := False\<rparr>)
       (started_sink\<lparr>reconnection_delay := 0\<rparr>) (chunk 5 9)))) \<and>
   flow (projr (gst_rtmp_sink_render (answers_ok\<lparr>RTMP_ConnectStream_ok := False\<rparr>)
       (started_sink\<lparr>reconnection_delay := 0\<rparr>) (chunk 5 9))) = GST_FLOW_ERROR"
proof -
  let ?a = "gst_rtmp_sink_render (answers_ok\<lparr>RTMP_Connect_ok := False\<rparr>)
       started_sink (chunk 5 9)"
  let ?b = "gst_rtmp_sink_render (answers_ok\<lparr>RTMP_ConnectStream_ok := False\<rparr>)
       (started_sink\<lparr>reconnection_delay := 0\<rparr>) (chunk 5 9)"
  have a: "?a = Inr (projr ?a)" "refused (effects (projr ?a))"
    by (simp_all add: render_defs example_defs Let_def)
  have b: "?b = Inr (projr ?b)" "refused (effects (projr ?b))"
    by (simp_all add: render_defs example_defs Let_def)
  have d: "0 < reconnection_delay started_sink"
    "reconnection_delay (started_sink\<lparr>reconnection_delay := 0\<rparr>) = 0"
    by (simp_all add: example_defs)
  from connect_failure_flow [OF a] connect_failure_flow [OF b] a(2) b(2) d
  show ?thesis by simp
qed

subsection \<open>The cached header\<close>

text \<open>
  C2, at a concrete input. The started element receives the buffer A (time 10,
  bytes 18 0 0) and then the buffer B (time 20, bytes 9 0 0), and librtmp accepts
  everything. The first call connects, caches A as the header and writes nothing.
  The second call hands to \<^verbatim>\<open>RTMP_Write\<close> the three bytes of B alone, not the
  bytes of A followed by those of B, and the header still holds A afterwards.
\<close>

theorem header_not_joined:
  "map flow (projr (render_all started_sink
       [(answers_ok, chunk 10 18), (answers_ok, chunk 20 9)]))
     = [GST_FLOW_OK, GST_FLOW_OK] \<and>
   map (\<lambda>x. writes (effects x)) (projr (render_all started_sink
       [(answers_ok, chunk 10 18), (answers_ok, chunk 20 9)]))
     = [[], [(data (chunk 20 9), 3)]] \<and>
   map (\<lambda>x. header (sink x)) (projr (render_all started_sink
       [(answers_ok, chunk 10 18), (answers_ok, chunk 20 9)]))
     = [Some (chunk 10 18), Some (chunk 10 18)] \<and>
   data (chunk 20 9) \<noteq> data (chunk 10 18) @ data (chunk 20 9)"
  by (simp add: render_defs example_defs Let_def)

subsection \<open>The replay of the saved metadata\<close>

text \<open>
  C3, as the code has it. A call that completes a connection (\<^verbatim>\<open>first\<close> was set
  and is cleared) writes the saved slots in the order stream, video, audio, leaving
  out the slots that are not saved, and writes nothing else. Each saved slot is
  written whatever the earlier writes returned: the value returned by the last
  write made is stored in \<^verbatim>\<open>connection_status\<close> (1 when nothing is saved), and
  the call returns \<^verbatim>\<open>GST_FLOW_OK\<close>.
\<close>

theorem replay_order:
  assumes "gst_rtmp_sink_render t s buf = Inr out" and "first s" and "\<not> first (sink out)"
  shows "writes (effects out) = replay_writes t (sink out) \<and>
         flow out = GST_FLOW_OK \<and>
         connection_status (sink out) = replay_status t (sink out)"
  using assms(1)
proof (cases rule: render_cases)
  case (steady s1)
  with assms(2) show ?thesis by simp
next
  case (wait s1)
  with assms(2,3) save_metadata_control [OF wait(1)] show ?thesis
    by (simp add: same_control_def)
next
  case (setup_failed s1 s2 es)
  with assms(3) init_failed_obs [of s2 es] show ?thesis by simp
next
  case (connect_refused s1 s2 es)
  with assms(3) connect_failed_obs [of s2 buf es] show ?thesis by simp
next
  case (connected s1 s2 es)
  note C = connected_obs [OF connected(9)]
  have "replay_writes t (sink out) = replay_writes t s2"
    by (subst conjunct2 [OF conjunct2 [OF conjunct2 [OF conjunct2 [OF conjunct2 [OF conjunct2 [OF C]]]]]])
       (simp add: replay_writes_def)
  moreover have "replay_status t (sink out) = replay_status t s2"
    by (subst conjunct2 [OF conjunct2 [OF conjunct2 [OF conjunct2 [OF conjunct2 [OF conjunct2 [OF C]]]]]])
       (simp add: replay_status_def)
  moreover have "connection_status (sink out) = replay_status t s2"
    by (subst conjunct2 [OF conjunct2 [OF conjunct2 [OF conjunct2 [OF conjunct2 [OF conjunct2 [OF C]]]]]])
       simp
  ultimately show ?thesis using C connected(7) by simp
qed

text \<open>
  The element after its second failed write, all three slots saved: the
  reconnection writes stream, video, audio. With the video slot not saved (and a
  buffer of tag 0, which fills no slot) it writes stream, audio.
\<close>

theorem replay_order_witness:
  "first choked_sink \<and>
   \<not> first (sink (projr (gst_rtmp_sink_render answers_ok choked_sink (chunk 30 9)))) \<and>
   writes (effects (projr (gst_rtmp_sink_render answers_ok choked_sink (chunk 30 9))))
     = [([18, 0, 0], 3), ([9, 0, 0], 3), ([8, 0, 0], 3)] \<and>
   first (choked_sink\<lparr>video_meta_saved := False\<rparr>) \<and>
   \<not> first (sink (projr (gst_rtmp_sink_render answers_ok
       (choked_sink\<lparr>video_meta_saved := False\<rparr>) (chunk 30 0)))) \<and>
   writes (effects (projr (gst_rtmp_sink_render answers_ok
       (choked_sink\<lparr>video_meta_saved := False\<rparr>) (chunk 30 0))))
     = [([18, 0, 0], 3), ([8, 0, 0], 3)]"
proof -
  let ?a = "gst_rtmp_sink_render answers_ok choked_sink (chunk 30 9)"
  let ?b = "gst_rtmp_sink_render answers_ok
       (choked_sink\<lparr>video_meta_saved := False\<rparr>) (chunk 30 0)"
  have a: "?a = Inr (projr ?a)" "first choked_sink" "\<not> first (sink (projr ?a))"
    and a': "replay_writes answers_ok (sink (projr ?a))
       = [([18, 0, 0], 3), ([9, 0, 0], 3), ([8, 0, 0], 3)]"
    by (simp_all add: render_defs example_defs Let_def replay_writes_def slot_writes_def)
  have b: "?b = Inr (projr ?b)" "first (choked_sink\<lparr>video_meta_saved := False\<rparr>)"
      "\<not> first (sink (projr ?b))"
    and b': "replay_writes answers_ok (sink (projr ?b)) = [([18, 0, 0], 3), ([8, 0, 0], 3)]"
    by (simp_all add: render_defs example_defs Let_def replay_writes_def slot_writes_def)
  from replay_order [OF a] replay_order [OF b] a b a' b'
  show ?thesis by simp
qed

text \<open>
  C3 as stated fails: the write of the stream slot returns \<^verbatim>\<open>-1\<close>, the video
  and audio slots are written all the same, and the call returns \<^verbatim>\<open>GST_FLOW_OK\<close>.
\<close>

theorem replay_abort_counterexample:
  "\<not> isl (gst_rtmp_sink_render (answers_ok\<lparr>RTMP_Write_stream := - 1\<rparr>)
       choked_sink (chunk 30 9)) \<and>
   flow (projr (gst_rtmp_sink_render (answers_ok\<lparr>RTMP_Write_stream := - 1\<rparr>)
       choked_sink (chunk 30 9))) = GST_FLOW_OK \<and>
   writes (effects (projr (gst_rtmp_sink_render (answers_ok\<lparr>RTMP_Write_stream := - 1\<rparr>)
       choked_sink (chunk 30 9))))
     = [([18, 0, 0], - 1), ([9, 0, 0], 3), ([8, 0, 0], 3)]"
  by (simp add: render_defs example_defs Let_def)

subsection \<open>The write error flag\<close>

text \<open>
  No call of the render function sets the flag: the label \<^verbatim>\<open>init_failed\<close> sets it
  only when the URI copy is still there, and both jumps to the label come after
  the copy was released.
\<close>

lemma first_chunk_write_error:
  assumes "first_chunk t s buf = Inr out" "have_write_error (sink out)"
  shows "have_write_error s"
proof -
  have m: "have_write_error (mark_end s buf) = have_write_error s"
    by (simp add: mark_end_def)
  obtain s2 es2 where r: "reinit t (mark_end s buf) = (s2, es2)"
    by (cases "reinit t (mark_end s buf)")
  have r2: "have_write_error s2 \<longrightarrow> have_write_error s"
    using r m
    by (auto simp: reinit_def gst_rtmp_sink_stop_def gst_rtmp_sink_start_def Let_def
        split: if_splits option.splits prod.splits)
  obtain ok s3 es3 where p: "gst_rtmp_sink_option t s2 = (ok, s3, es3)"
    by (cases "gst_rtmp_sink_option t s2")
  have p3: "have_write_error s3 = have_write_error s2" "\<not> ok \<longrightarrow> rtmp_uri s3 = None"
    using p by (auto simp: gst_rtmp_sink_option_def split: if_splits)
  have cf: "\<And>es. have_write_error (sink (connect_failed s3 buf es)) = have_write_error s3"
    by (simp add: connect_failed_def init_failed_def Let_def)
  have inf: "\<And>es. \<not> ok \<Longrightarrow> have_write_error (sink (init_failed s3 es)) = have_write_error s3"
    using p3(2) by (simp add: init_failed_def)
  have cn: "\<And>s' es out'. connected t s' buf es = Inr out' \<Longrightarrow>
      have_write_error (sink out') = have_write_error s'"
  proof -
    fix s' es out'
    assume "connected t s' buf es = Inr out'"
    note C = connected_obs [OF this]
    show "have_write_error (sink out') = have_write_error s'"
      by (subst conjunct2 [OF conjunct2 [OF conjunct2 [OF conjunct2 [OF conjunct2 [OF conjunct2 [OF C]]]]]])
         simp
  qed
  from assms r p show ?thesis
    using m r2 p3 cf inf cn
    by (auto simp: first_chunk_def Let_def split: if_splits option.splits)
qed

lemma write_error_never_set:
  assumes "gst_rtmp_sink_render t s buf = Inr out" "have_write_error (sink out)"
  shows "have_write_error s"
proof -
  from assms(1) obtain s1 where sm: "save_metadata s buf = Inr s1"
    by (auto simp: gst_rtmp_sink_render_def split: sum.splits)
  note c = save_metadata_control [OF sm]
  show ?thesis
  proof (cases "first s1")
    case True
    with assms(1) sm have "first_chunk t s1 buf = Inr out"
      by (simp add: gst_rtmp_sink_render_def)
    from first_chunk_write_error [OF this assms(2)] c show ?thesis
      by (simp add: same_control_def)
  next
    case False
    with assms(1) sm have "steady t s1 buf = Inr out"
      by (simp add: gst_rtmp_sink_render_def)
    from steady_obs [OF this] assms(2) c show ?thesis
      by (simp add: same_control_def)
  qed
qed

text \<open>
  The test of line 482: were the flag set while the element is not waiting for a
  first buffer, the call would return \<^verbatim>\<open>GST_FLOW_ERROR\<close>, write nothing and keep
  the flag.
\<close>

lemma sticky_step:
  assumes "gst_rtmp_sink_render t s buf = Inr out" "have_write_error s" "\<not> first s"
  shows "flow out = GST_FLOW_ERROR \<and> have_write_error (sink out) \<and> \<not> first (sink out) \<and>
         writes (effects out) = []"
  using assms(1)
proof (cases rule: render_cases)
  case (steady s1)
  from save_metadata_control [OF steady(1)] assms(2,3)
  have "have_write_error s1" "\<not> first s1" by (simp_all add: same_control_def)
  with steady_obs [OF steady(3)] show ?thesis by simp
qed (use assms(3) in simp_all)


subsection \<open>The capture of metadata\<close>

text \<open>
  C5, as the code has it. A call of the render function fills the stream, video
  or audio slot exactly when the slot is not yet saved, \<^verbatim>\<open>connection_status\<close> is
  not 0 and the first byte of the buffer is 18, 9 or 8; the slot then holds the
  buffer, and a saved slot keeps what it holds. The test is on a status different
  from 0, so the capture happens with status 1 (connected) and also with status
  \<^verbatim>\<open>-1\<close> (error); with status 0 (idle) no slot changes.
\<close>

theorem capture_when_status_nonzero:
  assumes "gst_rtmp_sink_render t s buf = Inr out"
  shows "(stream_meta_saved (sink out) \<longleftrightarrow>
            stream_meta_saved s \<or> connection_status s \<noteq> 0 \<and> take 1 (data buf) = [18]) \<and>
         stream_metadata (sink out) =
           (if \<not> stream_meta_saved s \<and> connection_status s \<noteq> 0 \<and> take 1 (data buf) = [18]
            then Some buf else stream_metadata s) \<and>
         (video_meta_saved (sink out) \<longleftrightarrow>
            video_meta_saved s \<or> connection_status s \<noteq> 0 \<and> take 1 (data buf) = [9]) \<and>
         video_metadata (sink out) =
           (if \<not> video_meta_saved s \<and> connection_status s \<noteq> 0 \<and> take 1 (data buf) = [9]
            then Some buf else video_metadata s) \<and>
         (audio_meta_saved (sink out) \<longleftrightarrow>
            audio_meta_saved s \<or> connection_status s \<noteq> 0 \<and> take 1 (data buf) = [8]) \<and>
         audio_metadata (sink out) =
           (if \<not> audio_meta_saved s \<and> connection_status s \<noteq> 0 \<and> take 1 (data buf) = [8]
            then Some buf else audio_metadata s) \<and>
         (connection_status s = 0 \<longrightarrow> same_slots s (sink out))"
proof -
  from render_slots [OF assms] obtain s1 where
    a: "save_metadata s buf = Inr s1" and b: "same_slots s1 (sink out)" by blast
  from save_metadata_slots [OF a] b show ?thesis
    by (simp add: same_slots_def)
qed

text \<open>
  With status 0 a stream-setup buffer fills no slot; in the streaming element the
  saved stream slot is kept, and a free video slot takes the video buffer.
\<close>

theorem capture_when_status_nonzero_witness:
  "connection_status started_sink = 0 \<and>
   same_slots started_sink
     (sink (projr (gst_rtmp_sink_render answers_ok started_sink (chunk 1 18)))) \<and>
   connection_status streaming_sink \<noteq> 0 \<and>
   same_slots streaming_sink
     (sink (projr (gst_rtmp_sink_render answers_ok streaming_sink (chunk 50 18)))) \<and>
   video_metadata (sink (projr (gst_rtmp_sink_render answers_ok
       (streaming_sink\<lparr>video_meta_saved := False\<rparr>) (chunk 50 9)))) = Some (chunk 50 9)"
proof -
  let ?a = "gst_rtmp_sink_render answers_ok started_sink (chunk 1 18)"
  let ?b = "gst_rtmp_sink_render answers_ok streaming_sink (chunk 50 18)"
  let ?c = "gst_rtmp_sink_render answers_ok
       (streaming_sink\<lparr>video_meta_saved := False\<rparr>) (chunk 50 9)"
  have a: "?a = Inr (projr ?a)" and b: "?b = Inr (projr ?b)" and c: "?c = Inr (projr ?c)"
    by (simp_all add: render_defs example_defs Let_def)
  have h: "connection_status started_sink = 0" "connection_status streaming_sink \<noteq> 0"
    "stream_meta_saved streaming_sink" "video_meta_saved streaming_sink"
    "audio_meta_saved streaming_sink"
    "\<not> video_meta_saved (streaming_sink\<lparr>video_meta_saved := False\<rparr>)"
    "connection_status (streaming_sink\<lparr>video_meta_saved := False\<rparr>) \<noteq> 0"
    "take 1 (data (chunk 50 9)) = [9]"
    by (simp_all add: example_defs)
  from capture_when_status_nonzero [OF a] capture_when_status_nonzero [OF b]
    capture_when_status_nonzero [OF c] h
  show ?thesis by (simp add: same_slots_def)
qed

text \<open>
  C5 as stated fails: after a refused connection the status is \<^verbatim>\<open>-1\<close>, and a
  stream-setup buffer that arrives while the element waits to retry fills the
  stream slot.
\<close>

theorem capture_in_error_state_counterexample:
  "connection_status lost_sink = - 1 \<and>
   \<not> stream_meta_saved lost_sink \<and>
   \<not> isl (gst_rtmp_sink_render answers_ok lost_sink (chunk 6 18)) \<and>
   stream_meta_saved (sink (projr (gst_rtmp_sink_render answers_ok lost_sink (chunk 6 18)))) \<and>
   stream_metadata (sink (projr (gst_rtmp_sink_render answers_ok lost_sink (chunk 6 18))))
     = Some (chunk 6 18)"
  by (simp add: render_defs example_defs Let_def)

subsection \<open>The bandwidth message and the error counter\<close>

text \<open>
  C6, as the code has it. The bandwidth message is posted only by a call that
  completes a connection, and exactly when at that call no disconnected message is
  awaiting its reconnected message (\<^verbatim>\<open>disconnection_notified\<close> is not 0), the last
  write failed (\<^verbatim>\<open>sent_status\<close> is \<^verbatim>\<open>-1\<close>) and \<^verbatim>\<open>send_error_count\<close> is at least
  2. The counter becomes 0 when the message is posted and when a connection is
  refused, grows by one when a write leaves \<^verbatim>\<open>sent_status\<close> at \<^verbatim>\<open>-1\<close>, and is
  unchanged otherwise: a successful write does not reset it.
\<close>

theorem bandwidth_and_counter:
  assumes "gst_rtmp_sink_render t s buf = Inr out"
  shows "filter is_bandwidth (posts (effects out)) =
           (if first s \<and> \<not> first (sink out) \<and> disconnection_notified s \<noteq> 0 \<and>
               sent_status s = - 1 \<and> 2 \<le> send_error_count s
            then [Bandwidth (timestamp buf)] else []) \<and>
         send_error_count (sink out) =
           (if filter is_bandwidth (posts (effects out)) \<noteq> [] \<or> refused (effects out) then 0
            else if \<not> first s \<and> flow out = GST_FLOW_OK \<and> sent_status (sink out) = - 1
            then send_error_count s + 1 else send_error_count s) \<and>
         (\<not> first s \<and> writes (effects out) = [(data buf, RTMP_Write_buf t)] \<and>
            0 < RTMP_Write_buf t \<longrightarrow> send_error_count (sink out) = send_error_count s)"
  using assms
proof (cases rule: render_cases)
  case (steady s1)
  note c = save_metadata_control [OF steady(1)]
  from steady steady_obs [OF steady(3)] c show ?thesis
    by (auto simp: same_control_def split: if_splits)
next
  case (wait s1)
  with save_metadata_control [OF wait(1)] show ?thesis by (simp add: same_control_def)
next
  case (setup_failed s1 s2 es)
  with init_failed_obs [of s2 es] save_metadata_control [OF setup_failed(1)] show ?thesis
    by (simp add: same_control_def kept_def)
next
  case (connect_refused s1 s2 es)
  with connect_failed_obs [of s2 buf es] show ?thesis by simp
next
  case (connected s1 s2 es)
  have d: "disconnection_notified s2 = disconnection_notified s"
    "sent_status s2 = sent_status s" "send_error_count s2 = send_error_count s"
    using connected(4) save_metadata_control [OF connected(1)]
    by (simp_all add: kept_def same_control_def)
  note C = connected_obs [OF connected(9)]
  have e: "send_error_count (sink out) =
      (if disconnection_notified s2 \<noteq> 0 \<and> sent_status s2 = - 1 \<and> send_error_count s2 \<ge> 2
       then 0 else send_error_count s2)"
    by (subst conjunct2 [OF conjunct2 [OF conjunct2 [OF conjunct2 [OF conjunct2 [OF conjunct2 [OF C]]]]]])
       simp
  from connected d C e show ?thesis by simp
qed

text \<open>
  A successful write leaves a counter of 1 at 1; the reconnection after the
  second failed write posts the bandwidth message and resets the counter.
\<close>

theorem bandwidth_and_counter_witness:
  "\<not> first (streaming_sink\<lparr>send_error_count := 1\<rparr>) \<and>
   writes (effects (projr (gst_rtmp_sink_render answers_ok
       (streaming_sink\<lparr>send_error_count := 1\<rparr>) (chunk 40 9))))
     = [(data (chunk 40 9), RTMP_Write_buf answers_ok)] \<and>
   0 < RTMP_Write_buf answers_ok \<and>
   send_error_count (sink (projr (gst_rtmp_sink_render answers_ok
       (streaming_sink\<lparr>send_error_count := 1\<rparr>) (chunk 40 9))))
     = send_error_count (streaming_sink\<lparr>send_error_count := 1\<rparr>) \<and>
   filter is_bandwidth (posts (effects (projr
       (gst_rtmp_sink_render answers_ok choked_sink (chunk 30 9))))) = [Bandwidth 30] \<and>
   send_error_count (sink (projr (gst_rtmp_sink_render answers_ok choked_sink (chunk 30 9))))
     = 0"
proof -
  let ?s = "streaming_sink\<lparr>send_error_count := 1\<rparr>"
  let ?a = "gst_rtmp_sink_render answers_ok ?s (chunk 40 9)"
  let ?b = "gst_rtmp_sink_render answers_ok choked_sink (chunk 30 9)"
  have a: "?a = Inr (projr ?a)"
    and h: "\<not> first ?s"
      "writes (effects (projr ?a)) = [(data (chunk 40 9), RTMP_Write_buf answers_ok)]"
      "0 < RTMP_Write_buf answers_ok"
    by (simp_all add: render_defs example_defs Let_def)
  have b: "?b = Inr (projr ?b)"
    and k: "first choked_sink" "\<not> first (sink (projr ?b))"
      "disconnection_notified choked_sink \<noteq> 0" "sent_status choked_sink = - 1"
      "2 \<le> send_error_count choked_sink" "timestamp (chunk 30 9) = 30"
    by (simp_all add: render_defs example_defs Let_def)
  from bandwidth_and_counter [OF a] h
  have 1: "send_error_count (sink (projr ?a)) = send_error_count ?s" by blast
  from bandwidth_and_counter [OF b] k
  have 2: "filter is_bandwidth (posts (effects (projr ?b))) = [Bandwidth 30]" by simp
  with bandwidth_and_counter [OF b]
  have 3: "send_error_count (sink (projr ?b)) = 0" by simp
  from 1 2 3 h show ?thesis by simp
qed

text \<open>
  C6 as stated fails: a write fails, the element reconnects, a write succeeds
  and leaves the counter at 1, the next write fails and makes it 2, and the
  reconnection posts the bandwidth message, although the two failures were
  separated by a successful write.
\<close>

theorem counter_not_reset_counterexample:
  "map (\<lambda>x. writes (effects x))
     (projr (render_all streaming_sink
        [(answers_ok\<lparr>RTMP_Write_buf := - 1\<rparr>, chunk 40 9), (answers_ok, chunk 41 9),
         (answers_ok, chunk 42 9), (answers_ok\<lparr>RTMP_Write_buf := - 1\<rparr>, chunk 43 9),
         (answers_ok, chunk 44 9)]))
     = [[([9, 0, 0], - 1)],
        [([18, 0, 0], 3), ([9, 0, 0], 3), ([8, 0, 0], 3)],
        [([9, 0, 0], 3)],
        [([9, 0, 0], - 1)],
        [([18, 0, 0], 3), ([9, 0, 0], 3), ([8, 0, 0], 3)]] \<and>
   map (\<lambda>x. send_error_count (sink x))
     (projr (render_all streaming_sink
        [(answers_ok\<lparr>RTMP_Write_buf := - 1\<rparr>, chunk 40 9), (answers_ok, chunk 41 9),
         (answers_ok, chunk 42 9), (answers_ok\<lparr>RTMP_Write_buf := - 1\<rparr>, chunk 43 9),
         (answers_ok, chunk 44 9)]))
     = [1, 1, 1, 2, 0] \<and>
   map (\<lambda>x. posts (effects x))
     (projr (render_all streaming_sink
        [(answers_ok\<lparr>RTMP_Write_buf := - 1\<rparr>, chunk 40 9), (answers_ok, chunk 41 9),
         (answers_ok, chunk 42 9), (answers_ok\<lparr>RTMP_Write_buf := - 1\<rparr>, chunk 43 9),
         (answers_ok, chunk 44 9)]))
     = [[], [], [], [], [Bandwidth 44]]"
  by (simp add: render_defs example_defs Let_def)

subsection \<open>The disconnected message\<close>

text \<open>
  The first refused call on the started element leaves the state \<open>lost_sink\<close>.
\<close>

lemma lost_sink_reached:
  "gst_rtmp_sink_render (answers_ok\<lparr>RTMP_Connect_ok := False\<rparr>) started_sink (chunk 5 9)
     = Inr \<lparr> flow = GST_FLOW_OK, sink = lost_sink,
             effects = [Call_IsConnected False, Call_SetOpt ''flashver'' True,
                        Call_SetOpt ''timeout'' True, Call_Connect False, Call_Free,
                        Post (Disconnected 5)] \<rparr>"
  by (simp add: render_defs example_defs Let_def)

text \<open>
  While no disconnected message is awaiting its reconnected message, a call whose
  connection is not refused leaves it so; this is the state of the element after
  \<^verbatim>\<open>gst_rtmp_sink_init\<close> and, by the theorem below, after every completed
  reconnection.
\<close>

lemma no_refusal_keeps_notified:
  assumes "gst_rtmp_sink_render t s buf = Inr out" "disconnection_notified s = 1"
    "\<not> refused (effects out)"
  shows "disconnection_notified (sink out) = 1"
  using assms(1)
proof (cases rule: render_cases)
  case (steady s1)
  with steady_obs [OF steady(3)] save_metadata_control [OF steady(1)] assms(2)
  show ?thesis by (simp add: same_control_def)
next
  case (wait s1)
  with save_metadata_control [OF wait(1)] assms(2) show ?thesis by (simp add: same_control_def)
next
  case (setup_failed s1 s2 es)
  with init_failed_obs [of s2 es] save_metadata_control [OF setup_failed(1)] assms(2)
  show ?thesis by (simp add: same_control_def kept_def)
next
  case (connect_refused s1 s2 es)
  with assms(3) connect_failed_obs [of s2 buf es] show ?thesis by simp
next
  case (connected s1 s2 es)
  have d: "disconnection_notified s2 = 1"
    using connected(4) save_metadata_control [OF connected(1)] assms(2)
    by (simp add: kept_def same_control_def)
  note C = connected_obs [OF connected(9)]
  show ?thesis
    by (subst conjunct2 [OF conjunct2 [OF conjunct2 [OF conjunct2 [OF conjunct2 [OF conjunct2 [OF C]]]]]])
       (simp add: d)
qed

text \<open>
  C7, as the code has it. In retry mode (\<^verbatim>\<open>reconnection_delay\<close> positive), a
  disconnect episode begins with a refused connection while no disconnected
  message is pending, and lasts as long as no call completes a connection
  (\<^verbatim>\<open>first\<close> stays set). The call that begins the episode posts the disconnected
  message, once, with the timestamp of its buffer, and no later call of the
  episode posts it: neither the buffers dropped while waiting, which have no
  effect at all, nor the later refused attempts. The call that ends the episode by
  completing a connection posts no disconnected message and leaves the element
  ready to post it for the next episode.
\<close>

theorem disconnected_once_per_episode:
  assumes "render_all s ((t, buf) # xs) = Inr (out # outs)"
    and "refused (effects out)"
    and "0 < reconnection_delay s"
    and "disconnection_notified s = 1"
    and "\<forall>x \<in> set outs. first (sink x)"
  shows "posts (effects out) = [Disconnected (timestamp buf)] \<and>
         (\<forall>x \<in> set outs. filter is_disconnected (posts (effects x)) = []) \<and>
         (\<forall>t' s' b' out'. gst_rtmp_sink_render t' s' b' = Inr out' \<and> first s' \<and>
              \<not> eligible (mark_end s' b') \<longrightarrow> effects out' = [] \<and> flow out' = GST_FLOW_OK) \<and>
         (\<forall>t' b' out'. gst_rtmp_sink_render t' (sink (last (out # outs))) b' = Inr out' \<and>
              \<not> first (sink out') \<longrightarrow>
              filter is_disconnected (posts (effects out')) = [] \<and>
              disconnection_notified (sink out') = 1)"
proof -
  from assms(1) have step: "gst_rtmp_sink_render t s buf = Inr out"
    and r: "render_all (sink out) xs = Inr outs"
    by (auto split: sum.splits)
  from step have first_step:
    "posts (effects out) = [Disconnected (timestamp buf)] \<and>
     disconnection_notified (sink out) = 0 \<and> first (sink out)"
  proof (cases rule: render_cases)
    case (steady s1)
    with assms(2) steady_obs [OF steady(3)] show ?thesis by simp
  next
    case (wait s1)
    with assms(2) show ?thesis by simp
  next
    case (setup_failed s1 s2 es)
    with assms(2) init_failed_obs [of s2 es] show ?thesis by simp
  next
    case (connect_refused s1 s2 es)
    have d: "disconnection_notified s2 = 1" "reconnection_delay s2 \<noteq> 0"
      using connect_refused(4) save_metadata_control [OF connect_refused(1)] assms(3,4)
      by (auto simp add: kept_def same_control_def)
    with connect_refused connect_failed_obs [of s2 buf es] show ?thesis by simp
  next
    case (connected s1 s2 es)
    with assms(2) connected_obs [OF connected(9)] show ?thesis by simp
  qed
  from first_step have fs: "disconnection_notified (sink out) = 0" "first (sink out)"
    by simp_all
  note q = episode_quiet [OF r fs(1) assms(5) fs(2)]
  have last0: "disconnection_notified (sink (last (out # outs))) = 0"
    "first (sink (last (out # outs)))"
    using fs q assms(5) by (cases "outs = []"; simp)+
  have waiting: "\<forall>t' s' b' out'. gst_rtmp_sink_render t' s' b' = Inr out' \<and> first s' \<and>
      \<not> eligible (mark_end s' b') \<longrightarrow> effects out' = [] \<and> flow out' = GST_FLOW_OK"
  proof (intro allI impI, elim conjE)
    fix t' s' b' out'
    assume a: "gst_rtmp_sink_render t' s' b' = Inr out'" and f: "first s'"
      and n: "\<not> eligible (mark_end s' b')"
    from a show "effects out' = [] \<and> flow out' = GST_FLOW_OK"
    proof (cases rule: render_cases)
      case (wait s1)
      then show ?thesis by simp
    qed (use f n eligible_save in simp_all)
  qed
  have closing: "\<forall>t' b' out'. gst_rtmp_sink_render t' (sink (last (out # outs))) b' = Inr out' \<and>
      \<not> first (sink out') \<longrightarrow>
      filter is_disconnected (posts (effects out')) = [] \<and> disconnection_notified (sink out') = 1"
    using episode_step [OF _ last0] by auto
  from first_step q waiting closing show ?thesis by simp
qed

text \<open>
  The started element and a librtmp that refuses every connection: the first
  buffer posts the message, the second is dropped inside the delay and has no
  effect, the third arrives after the delay and its attempt is refused without a
  message. A fourth buffer, after the delay again and with a librtmp that accepts,
  completes the connection: no disconnected message, and the element is ready to
  post one again.
\<close>

theorem disconnected_once_per_episode_witness:
  "refused (effects (hd (projr (render_all started_sink
       [(answers_ok\<lparr>RTMP_Connect_ok := False\<rparr>, chunk 5 9),
        (answers_ok\<lparr>RTMP_Connect_ok := False\<rparr>, chunk 6 9),
        (answers_ok\<lparr>RTMP_Connect_ok := False\<rparr>, chunk 30000000000 9)])))) \<and>
   0 < reconnection_delay started_sink \<and>
   disconnection_notified started_sink = 1 \<and>
   map (\<lambda>x. first (sink x)) (projr (render_all started_sink
       [(answers_ok\<lparr>RTMP_Connect_ok := False\<rparr>, chunk 5 9),
        (answers_ok\<lparr>RTMP_Connect_ok := False\<rparr>, chunk 6 9),
        (answers_ok\<lparr>RTMP_Connect_ok := False\<rparr>, chunk 30000000000 9)]))
     = [True, True, True] \<and>
   map (\<lambda>x. refused (effects x)) (projr (render_all started_sink
       [(answers_ok\<lparr>RTMP_Connect_ok := False\<rparr>, chunk 5 9),
        (answers_ok\<lparr>RTMP_Connect_ok := False\<rparr>, chunk 6 9),
        (answers_ok\<lparr>RTMP_Connect_ok := False\<rparr>, chunk 30000000000 9)]))
     = [True, False, True] \<and>
   posts (effects (hd (projr (render_all started_sink
       [(answers_ok\<lparr>RTMP_Connect_ok := False\<rparr>, chunk 5 9),
        (answers_ok\<lparr>RTMP_Connect_ok := False\<rparr>, chunk 6 9),
        (answers_ok\<lparr>RTMP_Connect_ok := False\<rparr>, chunk 30000000000 9)]))))
     = [Disconnected 5] \<and>
   map (\<lambda>x. filter is_disconnected (posts (effects x))) (tl (projr (render_all started_sink
       [(answers_ok\<lparr>RTMP_Connect_ok := False\<rparr>, chunk 5 9),
        (answers_ok\<lparr>RTMP_Connect_ok := False\<rparr>, chunk 6 9),
        (answers_ok\<lparr>RTMP_Connect_ok := False\<rparr>, chunk 30000000000 9)])))
     = [[], []] \<and>
   first lost_sink \<and>
   \<not> eligible (mark_end lost_sink (chunk 6 9)) \<and>
   effects (projr (gst_rtmp_sink_render (answers_ok\<lparr>RTMP_Connect_ok := False\<rparr>)
       lost_sink (chunk 6 9))) = [] \<and>
   \<not> first (sink (projr (gst_rtmp_sink_render answers_ok
       (sink (last (projr (render_all started_sink
          [(answers_ok\<lparr>RTMP_Connect_ok := False\<rparr>, chunk 5 9),
           (answers_ok\<lparr>RTMP_Connect_ok := False\<rparr>, chunk 6 9),
           (answers_ok\<lparr>RTMP_Connect_ok := False\<rparr>, chunk 30000000000 9)]))))
       (chunk 50000000000 9)))) \<and>
   filter is_disconnected (posts (effects (projr (gst_rtmp_sink_render answers_ok
       (sink (last (projr (render_all started_sink
          [(answers_ok\<lparr>RTMP_Connect_ok := False\<rparr>, chunk 5 9),
           (answers_ok\<lparr>RTMP_Connect_ok := False\<rparr>, chunk 6 9),
           (answers_ok\<lparr>RTMP_Connect_ok := False\<rparr>, chunk 30000000000 9)]))))
       (chunk 50000000000 9))))) = [] \<and>
   disconnection_notified (sink (projr (gst_rtmp_sink_render answers_ok
       (sink (last (projr (render_all started_sink
          [(answers_ok\<lparr>RTMP_Connect_ok := False\<rparr>, chunk 5 9),
           (answers_ok\<lparr>RTMP_Connect_ok := False\<rparr>, chunk 6 9),
           (answers_ok\<lparr>RTMP_Connect_ok := False\<rparr>, chunk 30000000000 9)]))))
       (chunk 50000000000 9)))) = 1"
proof -
  let ?t = "answers_ok\<lparr>RTMP_Connect_ok := False\<rparr>"
  let ?xs = "[(?t, chunk 6 9), (?t, chunk 30000000000 9)]"
  let ?r = "render_all started_sink ((?t, chunk 5 9) # ?xs)"
  let ?w = "gst_rtmp_sink_render ?t lost_sink (chunk 6 9)"
  let ?c = "gst_rtmp_sink_render answers_ok (sink (last (projr ?r))) (chunk 50000000000 9)"
  have e: "?r = Inr (hd (projr ?r) # tl (projr ?r))"
    and f: "map (\<lambda>x. first (sink x)) (projr ?r) = [True, True, True]"
    and g: "map (\<lambda>x. refused (effects x)) (projr ?r) = [True, False, True]"
    by (simp_all add: render_defs example_defs Let_def)
  from g have h: "refused (effects (hd (projr ?r)))"
    by (cases "projr ?r") auto
  from f have l: "length (tl (projr ?r)) = 2" and a: "\<forall>x \<in> set (tl (projr ?r)). first (sink x)"
    by (cases "projr ?r"; auto)+
  have d: "0 < reconnection_delay started_sink" "disconnection_notified started_sink = 1"
    "timestamp (chunk 5 9) = 5"
    by (simp_all add: example_defs)
  note T = disconnected_once_per_episode [OF e h d(1,2) a]
  from T have p: "posts (effects (hd (projr ?r))) = [Disconnected 5]"
    by (simp add: d(3))
  from T have "\<forall>x \<in> set (tl (projr ?r)). filter is_disconnected (posts (effects x)) = []"
    by blast
  then have "map (\<lambda>x. filter is_disconnected (posts (effects x))) (tl (projr ?r))
      = replicate (length (tl (projr ?r))) []"
    by (rule map_const_all)
  then have q: "map (\<lambda>x. filter is_disconnected (posts (effects x))) (tl (projr ?r)) = [[], []]"
    by (simp only: l numeral_2_eq_2 replicate.simps)
  have w: "?w = Inr (projr ?w)" "first lost_sink" "\<not> eligible (mark_end lost_sink (chunk 6 9))"
    by (simp_all add: render_defs example_defs Let_def)
  from T w have dropped: "effects (projr ?w) = []"
    by blast
  have pe: "projr ?r = hd (projr ?r) # tl (projr ?r)"
    by (rule trans [OF arg_cong [OF e, of projr] sum.sel(2)])
  have c: "?c = Inr (projr ?c)" and nf: "\<not> first (sink (projr ?c))"
    by (simp_all add: render_defs example_defs Let_def)
  have c': "gst_rtmp_sink_render answers_ok (sink (last (hd (projr ?r) # tl (projr ?r))))
      (chunk 50000000000 9) = Inr (projr ?c)"
    by (rule subst [OF pe, of "\<lambda>u. gst_rtmp_sink_render answers_ok (sink (last u))
      (chunk 50000000000 9) = Inr (projr ?c)", OF c])
  from T c' nf have closing:
    "filter is_disconnected (posts (effects (projr ?c))) = [] \<and>
     disconnection_notified (sink (projr ?c)) = 1"
    by blast
  from h d f g p q w dropped nf closing show ?thesis by simp
qed

text \<open>
  C7 as stated fails: with a reconnection delay of 0 the refused connection is
  fatal (the call returns \<^verbatim>\<open>GST_FLOW_ERROR\<close>) and posts nothing; the next call
  completes a connection, so the span from the refusal to the reconnection has no
  disconnected message at all.
\<close>

theorem fatal_refusal_counterexample:
  "reconnection_delay (started_sink\<lparr>reconnection_delay := 0\<rparr>) = 0 \<and>
   \<not> isl (render_all (started_sink\<lparr>reconnection_delay := 0\<rparr>)
       [(answers_ok\<lparr>RTMP_Connect_ok := False\<rparr>, chunk 5 9), (answers_ok, chunk 6 9)]) \<and>
   map (\<lambda>x. refused (effects x)) (projr (render_all (started_sink\<lparr>reconnection_delay := 0\<rparr>)
       [(answers_ok\<lparr>RTMP_Connect_ok := False\<rparr>, chunk 5 9), (answers_ok, chunk 6 9)]))
     = [True, False] \<and>
   map (\<lambda>x. first (sink x)) (projr (render_all (started_sink\<lparr>reconnection_delay := 0\<rparr>)
       [(answers_ok\<lparr>RTMP_Connect_ok := False\<rparr>, chunk 5 9), (answers_ok, chunk 6 9)]))
     = [True, False] \<and>
   map flow (projr (render_all (started_sink\<lparr>reconnection_delay := 0\<rparr>)
       [(answers_ok\<lparr>RTMP_Connect_ok := False\<rparr>, chunk 5 9), (answers_ok, chunk 6 9)]))
     = [GST_FLOW_ERROR, GST_FLOW_OK] \<and>
   map (\<lambda>x. posts (effects x)) (projr (render_all (started_sink\<lparr>reconnection_delay := 0\<rparr>)
       [(answers_ok\<lparr>RTMP_Connect_ok := False\<rparr>, chunk 5 9), (answers_ok, chunk 6 9)]))
     = [[], []]"
  by (simp add: render_defs example_defs Let_def)

subsection \<open>Stop, start and what they clear\<close>

text \<open>
  C8, as the code has it. \<^verbatim>\<open>gst_rtmp_sink_stop\<close> clears the cached header and
  \<^verbatim>\<open>gst_rtmp_sink_start\<close> leaves it cleared, also in the stop and start that the
  render function performs after an error. Neither of them touches the three metadata slots: the saved flags and the
  saved buffers are the same after the cycle as before, so that they can be written
  again after a reconnection. The slots are empty only in the state that
  \<^verbatim>\<open>gst_rtmp_sink_init\<close> builds.
\<close>

theorem stop_start_keep_metadata:
  "header (fst (gst_rtmp_sink_stop s)) = None \<and>
   same_slots s (fst (gst_rtmp_sink_stop s)) \<and>
   header (fst (snd (gst_rtmp_sink_start t (fst (gst_rtmp_sink_stop s))))) = None \<and>
   same_slots s (fst (snd (gst_rtmp_sink_start t (fst (gst_rtmp_sink_stop s))))) \<and>
   (connection_status s = - 1 \<or> sent_status s = - 1 \<longrightarrow> header (fst (reinit t s)) = None) \<and>
   same_slots s (fst (reinit t s)) \<and>
   header gst_rtmp_sink_init = None \<and>
   \<not> stream_meta_saved gst_rtmp_sink_init \<and>
   \<not> video_meta_saved gst_rtmp_sink_init \<and>
   \<not> audio_meta_saved gst_rtmp_sink_init"
proof -
  obtain s1 e1 where a: "gst_rtmp_sink_stop s = (s1, e1)"
    by (cases "gst_rtmp_sink_stop s")
  obtain ok s2 e2 where b: "gst_rtmp_sink_start t s1 = (ok, s2, e2)"
    by (cases "gst_rtmp_sink_start t s1")
  obtain s3 e3 where c: "reinit t s = (s3, e3)"
    by (cases "reinit t s")
  from stop_obs [OF a] start_obs [OF b] reinit_obs [OF c] reinit_header [OF c] a b c
  show ?thesis
    by (simp add: kept_def same_slots_def gst_rtmp_sink_init_def)
qed

text \<open>
  The element in the middle of a stream, after a failed write: the rebuilding
  clears the header and the stream slot is still saved.
\<close>

theorem stop_start_keep_metadata_witness:
  "sent_status (streaming_sink\<lparr>sent_status := - 1\<rparr>) = - 1 \<and>
   header (fst (reinit answers_ok (streaming_sink\<lparr>sent_status := - 1\<rparr>))) = None \<and>
   same_slots (streaming_sink\<lparr>sent_status := - 1\<rparr>)
     (fst (reinit answers_ok (streaming_sink\<lparr>sent_status := - 1\<rparr>)))"
  using stop_start_keep_metadata [of "streaming_sink\<lparr>sent_status := - 1\<rparr>" answers_ok]
  by simp

text \<open>
  C8 as stated fails: after a stop and a start the three slots of the streaming
  element are still saved, with their buffers.
\<close>

theorem stop_start_clears_slots_counterexample:
  "stream_meta_saved (fst (snd (gst_rtmp_sink_start answers_ok
       (fst (gst_rtmp_sink_stop streaming_sink))))) \<and>
   video_meta_saved (fst (snd (gst_rtmp_sink_start answers_ok
       (fst (gst_rtmp_sink_stop streaming_sink))))) \<and>
   audio_meta_saved (fst (snd (gst_rtmp_sink_start answers_ok
       (fst (gst_rtmp_sink_stop streaming_sink))))) \<and>
   stream_metadata (fst (snd (gst_rtmp_sink_start answers_ok
       (fst (gst_rtmp_sink_stop streaming_sink))))) = Some (chunk 0 18)"
  by (simp add: gst_rtmp_sink_start_def gst_rtmp_sink_stop_def streaming_sink_def
      started_sink_def gst_rtmp_sink_init_def answers_ok_def)

subsection \<open>The flag that forces an attempt\<close>

text \<open>
  C9, as the code has it. After a call whose connection attempt is refused,
  \<^verbatim>\<open>try_now_connection\<close> is false. A call that completes a connection leaves the
  flag as it was, so it is still set when it was the flag that made the attempt
  possible.
\<close>

theorem try_now_after_attempt:
  assumes "gst_rtmp_sink_render t s buf = Inr out"
  shows "(refused (effects out) \<longrightarrow> \<not> try_now_connection (sink out)) \<and>
         (first s \<and> \<not> first (sink out) \<longrightarrow>
            try_now_connection (sink out) = try_now_connection s)"
  using assms
proof (cases rule: render_cases)
  case (steady s1)
  with steady_obs [OF steady(3)] show ?thesis by simp
next
  case (wait s1)
  with save_metadata_control [OF wait(1)] show ?thesis
    by (simp add: same_control_def)
next
  case (setup_failed s1 s2 es)
  with init_failed_obs [of s2 es] show ?thesis by simp
next
  case (connect_refused s1 s2 es)
  with connect_failed_obs [of s2 buf es] show ?thesis by simp
next
  case (connected s1 s2 es)
  have d: "try_now_connection s2 = try_now_connection s"
    using connected(4) save_metadata_control [OF connected(1)]
    by (simp add: kept_def same_control_def)
  from connected d connected_obs [OF connected(9)] show ?thesis by simp
qed

text \<open>
  On the started element a refused attempt clears the flag, and a successful one
  leaves it as it was.
\<close>

theorem try_now_after_attempt_witness:
  "refused (effects (projr (gst_rtmp_sink_render (answers_ok\<lparr>RTMP_Connect_ok := False\<rparr>)
       started_sink (chunk 5 9)))) \<and>
   \<not> try_now_connection (sink (projr (gst_rtmp_sink_render
       (answers_ok\<lparr>RTMP_Connect_ok := False\<rparr>) started_sink (chunk 5 9)))) \<and>
   first started_sink \<and>
   \<not> first (sink (projr (gst_rtmp_sink_render answers_ok started_sink (chunk 1 9)))) \<and>
   try_now_connection (sink (projr (gst_rtmp_sink_render answers_ok started_sink (chunk 1 9))))
     = try_now_connection started_sink"
proof -
  let ?a = "gst_rtmp_sink_render (answers_ok\<lparr>RTMP_Connect_ok := False\<rparr>)
       started_sink (chunk 5 9)"
  let ?b = "gst_rtmp_sink_render answers_ok started_sink (chunk 1 9)"
  have a: "?a = Inr (projr ?a)" and a': "refused (effects (projr ?a))"
    by (simp_all add: render_defs example_defs Let_def)
  have b: "?b = Inr (projr ?b)" and b': "first started_sink" "\<not> first (sink (projr ?b))"
    by (simp_all add: render_defs example_defs Let_def)
  from try_now_after_attempt [OF a] try_now_after_attempt [OF b] a' b'
  show ?thesis by simp
qed

text \<open>
  C9 as stated fails: the started element is eligible only through the flag (no
  time has passed), the connection succeeds, and the flag is still set.
\<close>

theorem try_now_kept_counterexample:
  "try_now_connection started_sink \<and>
   eligible (mark_end started_sink (chunk 1 9)) \<and>
   \<not> eligible (mark_end (started_sink\<lparr>try_now_connection := False\<rparr>) (chunk 1 9)) \<and>
   \<not> isl (gst_rtmp_sink_render answers_ok started_sink (chunk 1 9)) \<and>
   \<not> first (sink (projr (gst_rtmp_sink_render answers_ok started_sink (chunk 1 9)))) \<and>
   try_now_connection (sink (projr (gst_rtmp_sink_render answers_ok started_sink (chunk 1 9))))"
  by (simp add: render_defs example_defs Let_def)

subsection \<open>Reconnected or bandwidth, never both\<close>

text \<open>
  C10. One call of the render function posts at most one message among
  reconnected and bandwidth. Either is posted only by a call that completes a
  connection: reconnected only when a disconnected message had been posted before
  (\<^verbatim>\<open>disconnection_notified\<close> is 0), bandwidth only when none is pending
  (\<^verbatim>\<open>disconnection_notified\<close> is not 0).
\<close>

theorem reconnected_or_bandwidth:
  assumes "gst_rtmp_sink_render t s buf = Inr out"
  shows "length (filter (\<lambda>m. is_reconnected m \<or> is_bandwidth m) (posts (effects out))) \<le> 1 \<and>
         (filter is_reconnected (posts (effects out)) \<noteq> [] \<longrightarrow>
            first s \<and> \<not> first (sink out) \<and> disconnection_notified s = 0) \<and>
         (filter is_bandwidth (posts (effects out)) \<noteq> [] \<longrightarrow>
            first s \<and> \<not> first (sink out) \<and> disconnection_notified s \<noteq> 0)"
  using assms
proof (cases rule: render_cases)
  case (steady s1)
  with steady_obs [OF steady(3)] show ?thesis by simp
next
  case (wait s1)
  then show ?thesis by simp
next
  case (setup_failed s1 s2 es)
  with init_failed_obs [of s2 es] show ?thesis by simp
next
  case (connect_refused s1 s2 es)
  with connect_failed_obs [of s2 buf es] show ?thesis by simp
next
  case (connected s1 s2 es)
  have d: "disconnection_notified s2 = disconnection_notified s"
    using connected(4) save_metadata_control [OF connected(1)]
    by (simp add: kept_def same_control_def)
  from connected d connected_obs [OF connected(9)] show ?thesis by simp
qed

text \<open>
  The reconnection after a posted disconnected message posts reconnected; the
  reconnection after the second failed write, with no disconnected message
  pending, posts bandwidth.
\<close>

theorem reconnected_or_bandwidth_witness:
  "filter is_reconnected (posts (effects (projr
       (gst_rtmp_sink_render answers_ok lost_sink (chunk 30000000000 9))))) \<noteq> [] \<and>
   disconnection_notified lost_sink = 0 \<and>
   \<not> first (sink (projr (gst_rtmp_sink_render answers_ok lost_sink (chunk 30000000000 9)))) \<and>
   filter is_bandwidth (posts (effects (projr
       (gst_rtmp_sink_render answers_ok choked_sink (chunk 30 9))))) \<noteq> [] \<and>
   disconnection_notified choked_sink \<noteq> 0 \<and>
   \<not> first (sink (projr (gst_rtmp_sink_render answers_ok choked_sink (chunk 30 9))))"
proof -
  let ?a = "gst_rtmp_sink_render answers_ok lost_sink (chunk 30000000000 9)"
  let ?b = "gst_rtmp_sink_render answers_ok choked_sink (chunk 30 9)"
  have a: "?a = Inr (projr ?a)"
    and a': "filter is_reconnected (posts (effects (projr ?a))) \<noteq> []"
    by (simp_all add: render_defs example_defs Let_def)
  have b: "?b = Inr (projr ?b)"
    and b': "filter is_bandwidth (posts (effects (projr ?b))) \<noteq> []"
    by (simp_all add: render_defs example_defs Let_def)
  from reconnected_or_bandwidth [OF a] reconnected_or_bandwidth [OF b] a' b'
  show ?thesis by simp
qed

end
